theory Spec2Isabelle
  imports Complex_Main "HOL-Library.Word"
begin

unbundle bit_operations_syntax

section \<open>The service layer of kalnori/voc (src/services/geminiService.ts)\<close>

text \<open>
  The file embeds \<^verbatim>\<open>src/services/geminiService.ts\<close>: the image fetcher with its proxy
  fallback, the analysis call with its clean-up of the vocabulary field, the PCM decoder
  and the two speech functions.

  Conventions of the embedding.
  \<^item> A JavaScript string is the list of its UTF-16 code units (\<open>16 word\<close>); the regular
    expression of the source has no \<^verbatim>\<open>u\<close> flag, so it works on code units too.
  \<^item> A thrown exception or a rejected promise is \<open>Inl e\<close>, a returned value or a
    fulfilled promise is \<open>Inr v\<close>.
  \<^item> The browser and the remote services are a record of functions, \<open>world\<close>, that the
    exported functions take as their first argument.
  \<^item> \<^verbatim>\<open>console.warn\<close> and \<^verbatim>\<open>console.error\<close> are left out: they write to the console
    and change neither the value nor the exception a caller receives.
\<close>

subsection \<open>Strings and exceptions\<close>

type_synonym code_unit = "16 word"
type_synonym jsstring = "code_unit list"

definition ascii :: "string \<Rightarrow> jsstring" where
  "ascii s = map (\<lambda>c. of_nat (of_char c)) s"

text \<open>
  The exceptions that occur. \<open>Error m\<close> is \<^verbatim>\<open>new Error(m)\<close>, the only kind the source
  creates itself; the others are thrown by the platform. \<open>NetworkFailure\<close> stands for the
  rejection of \<^verbatim>\<open>fetch\<close> or of a service call, \<open>ReadFailure\<close> for the event a
  \<^verbatim>\<open>FileReader\<close> passes to \<^verbatim>\<open>onerror\<close>; both carry a tag so that different failures are
  different values.
\<close>

datatype exn =
    Error jsstring
  | TypeError
  | RangeError
  | SyntaxError
  | URIError
  | InvalidCharacterError
  | NotSupportedError
  | IndexSizeError
  | NetworkFailure nat
  | ReadFailure nat

subsection \<open>\<^verbatim>\<open>atob\<close>: the platform's forgiving base64 decoder\<close>

text \<open>
  \<^verbatim>\<open>atob\<close> is a browser function. It is written out here after the WHATWG algorithm
  (forgiving-base64 decode), so that \<open>decodePCM\<close> runs on concrete payloads: remove ASCII
  whitespace; when the length is a multiple of 4, remove one or two trailing \<^verbatim>\<open>=\<close>; fail
  when the length is 1 modulo 4 or a character is outside the alphabet; then emit 8 bits
  for every 6 read, dropping the 4 or 2 bits left over. The result is a string whose code
  units are bytes.
\<close>

definition is_ascii_whitespace :: "code_unit \<Rightarrow> bool" where
  "is_ascii_whitespace c = (c = 0x09 \<or> c = 0x0A \<or> c = 0x0C \<or> c = 0x0D \<or> c = 0x20)"

definition base64_index :: "code_unit \<Rightarrow> nat option" where
  "base64_index c =
     (if 0x41 \<le> c \<and> c \<le> 0x5A then Some (unat c - 0x41)
      else if 0x61 \<le> c \<and> c \<le> 0x7A then Some (unat c - 0x61 + 26)
      else if 0x30 \<le> c \<and> c \<le> 0x39 then Some (unat c - 0x30 + 52)
      else if c = 0x2B then Some 62
      else if c = 0x2F then Some 63
      else None)"

definition strip_padding :: "jsstring \<Rightarrow> jsstring" where
  "strip_padding d =
     (if length d mod 4 = 0 \<and> d \<noteq> [] \<and> last d = 0x3D then
        (if butlast d \<noteq> [] \<and> last (butlast d) = 0x3D then butlast (butlast d)
         else butlast d)
      else d)"

fun sextets :: "jsstring \<Rightarrow> nat list option" where
  "sextets [] = Some []"
| "sextets (c # cs) =
     (case base64_index c of
        None \<Rightarrow> None
      | Some v \<Rightarrow> (case sextets cs of None \<Rightarrow> None | Some vs \<Rightarrow> Some (v # vs)))"

fun emit_bytes :: "nat list \<Rightarrow> jsstring" where
  "emit_bytes (a # b # c # d # rest) =
     (let n = a * 262144 + b * 4096 + c * 64 + d
      in of_nat (n div 65536) # of_nat (n div 256 mod 256) # of_nat (n mod 256)
           # emit_bytes rest)"
| "emit_bytes [a, b, c] =
     (let n = (a * 4096 + b * 64 + c) div 4
      in [of_nat (n div 256), of_nat (n mod 256)])"
| "emit_bytes [a, b] = [of_nat ((a * 64 + b) div 16)]"
| "emit_bytes _ = []"

definition atob :: "jsstring \<Rightarrow> exn + jsstring" where
  "atob data =
     (let d = strip_padding (filter (\<lambda>c. \<not> is_ascii_whitespace c) data)
      in if length d mod 4 = 1 then Inl InvalidCharacterError
         else (case sextets d of
                 None \<Rightarrow> Inl InvalidCharacterError
               | Some vs \<Rightarrow> Inr (emit_bytes vs)))"

subsection \<open>Typed arrays and audio buffers\<close>

text \<open>
  A \<^verbatim>\<open>Float32Array\<close> is a list of reals. Every number the program stores in one is 0 or
  \<open>k / 32768\<close> for a 16-bit integer \<open>k\<close>: the division by a power of two is exact in
  binary64, and the value has at most 16 significant bits, so storing it as binary32
  changes nothing. No other arithmetic is done on samples.

  An \<^verbatim>\<open>AudioBuffer\<close> keeps its sample rate and one list of samples per channel; its
  \<^verbatim>\<open>numberOfChannels\<close> and \<^verbatim>\<open>length\<close> attributes are read off the channel data.
\<close>

record AudioContext =
  ctx_sampleRate :: nat

record AudioBuffer =
  sampleRate :: nat
  channels :: "real list list"

definition numberOfChannels :: "AudioBuffer \<Rightarrow> nat" where
  "numberOfChannels b = length (channels b)"

definition buffer_length :: "AudioBuffer \<Rightarrow> nat" where
  "buffer_length b = (case channels b of [] \<Rightarrow> 0 | c # _ \<Rightarrow> length c)"

text \<open>
  \<^verbatim>\<open>ctx.createBuffer(numberOfChannels, length, sampleRate)\<close> of the Web Audio API: a
  zero-initialised buffer, and \<^verbatim>\<open>NotSupportedError\<close> when an argument is zero. The
  arguments the program passes, 1 channel and 24000 Hz, lie in the range every
  implementation must support; upper limits on the length are not modelled.
\<close>

definition createBuffer :: "AudioContext \<Rightarrow> nat \<Rightarrow> nat \<Rightarrow> nat \<Rightarrow> exn + AudioBuffer" where
  "createBuffer ctx nch len rate =
     (if nch = 0 \<or> len = 0 \<or> rate = 0 then Inl NotSupportedError
      else Inr \<lparr>sampleRate = rate, channels = replicate nch (replicate len 0)\<rparr>)"

text \<open>
  \<^verbatim>\<open>target.set(source, offset)\<close> on a typed array: \<^verbatim>\<open>RangeError\<close> when the source does
  not fit, otherwise the elements from \<open>offset\<close> on are overwritten.
\<close>

definition typed_array_set :: "real list \<Rightarrow> real list \<Rightarrow> nat \<Rightarrow> exn + real list" where
  "typed_array_set target source offset =
     (if length target < offset + length source then Inl RangeError
      else Inr (take offset target @ source @ drop (offset + length source) target))"

text \<open>
  \<^verbatim>\<open>buffer.getChannelData(c)\<close> gives the channel's own storage, \<^verbatim>\<open>IndexSizeError\<close> for a
  channel that does not exist. \<^verbatim>\<open>buffer.copyToChannel(source, c)\<close> copies as many frames
  as fit, from frame 0.
\<close>

definition getChannelData :: "AudioBuffer \<Rightarrow> nat \<Rightarrow> exn + real list" where
  "getChannelData b c =
     (if c < numberOfChannels b then Inr (channels b ! c) else Inl IndexSizeError)"

definition copyToChannel :: "AudioBuffer \<Rightarrow> real list \<Rightarrow> nat \<Rightarrow> exn + AudioBuffer" where
  "copyToChannel b source c =
     (if c < numberOfChannels b then
        (let old = channels b ! c; k = min (length source) (length old)
         in Inr (b\<lparr>channels := (channels b)[c := take k source @ drop k old]\<rparr>))
      else Inl IndexSizeError)"

subsection \<open>\<open>decodePCM\<close> (lines 127 to 146)\<close>

text \<open>
  The first loop fills a zeroed \<^verbatim>\<open>Uint8Array\<close> with the code units of the binary string;
  storing into a \<^verbatim>\<open>Uint8Array\<close> keeps the low 8 bits.
\<close>

function fill_bytes :: "jsstring \<Rightarrow> nat \<Rightarrow> 8 word list \<Rightarrow> 8 word list" where
  "fill_bytes binaryString i bytes =
     (if i < length binaryString
      then fill_bytes binaryString (Suc i) (bytes[i := ucast (binaryString ! i)])
      else bytes)"
  by pat_completeness auto
termination
  by (relation "measure (\<lambda>(s, i, bytes). length s - i)") auto

text \<open>
  \<^verbatim>\<open>new Int16Array(bytes.buffer)\<close> is a view of the same bytes, two per element, and
  throws \<^verbatim>\<open>RangeError\<close> when the byte length is not a multiple of 2. Typed arrays use the
  byte order of the machine; the model fixes little-endian, as the comment at line 135
  does and as every machine that runs a browser today is.
\<close>

definition int16_at :: "8 word list \<Rightarrow> nat \<Rightarrow> 16 word" where
  "int16_at bytes i = ucast (bytes ! (2 * i)) + 256 * ucast (bytes ! (2 * i + 1))"

definition new_Int16Array :: "8 word list \<Rightarrow> exn + 16 word list" where
  "new_Int16Array bytes =
     (if length bytes mod 2 \<noteq> 0 then Inl RangeError
      else Inr (map (int16_at bytes) [0..<length bytes div 2]))"

function fill_floats :: "16 word list \<Rightarrow> nat \<Rightarrow> real list \<Rightarrow> real list" where
  "fill_floats int16View i float32Data =
     (if i < length int16View
      then fill_floats int16View (Suc i)
             (float32Data[i := real_of_int (sint (int16View ! i)) / 32768])
      else float32Data)"
  by pat_completeness auto
termination
  by (relation "measure (\<lambda>(v, i, d). length v - i)") auto

definition decodePCM :: "jsstring \<Rightarrow> AudioContext \<Rightarrow> exn + AudioBuffer" where
  "decodePCM base64Data ctx =
     (case atob base64Data of
        Inl e \<Rightarrow> Inl e
      | Inr binaryString \<Rightarrow>
          (let len = length binaryString;
               bytes = fill_bytes binaryString 0 (replicate len 0)
           in case new_Int16Array bytes of
                Inl e \<Rightarrow> Inl e
              | Inr int16View \<Rightarrow>
                  (let float32Data =
                         fill_floats int16View 0 (replicate (length int16View) 0)
                   in case createBuffer ctx 1 (length float32Data) 24000 of
                        Inl e \<Rightarrow> Inl e
                      | Inr buffer \<Rightarrow> copyToChannel buffer float32Data 0)))"

subsection \<open>The image fetcher (lines 10 to 52)\<close>

text \<open>
  What \<^verbatim>\<open>fetch\<close> resolves to: the \<^verbatim>\<open>ok\<close> flag, the status text, and what
  \<^verbatim>\<open>response.blob()\<close> settles to.
\<close>

record Blob =
  blob_type :: jsstring
  blob_bytes :: "8 word list"

record Response =
  ok :: bool
  statusText :: jsstring
  blob :: "exn + Blob"

text \<open>
  The two service calls resolve to a \<^verbatim>\<open>GenerateContentResponse\<close>. The program reads its
  \<^verbatim>\<open>text\<close> accessor (a string or \<^verbatim>\<open>undefined\<close>) and, through optional chaining,
  \<^verbatim>\<open>candidates?.[0]?.content?.parts?.[0]?.inlineData?.data\<close>; \<open>None\<close> is
  \<^verbatim>\<open>undefined\<close>.
\<close>

record InlineData =
  data :: "jsstring option"

record Part =
  inlineData :: "InlineData option"

record Content =
  parts :: "Part list option"

record Candidate =
  content :: "Content option"

record GenerateContentResponse =
  response_text :: "jsstring option"
  candidates :: "Candidate list option"

text \<open>
  A value that \<^verbatim>\<open>JSON.parse\<close> can return, and \<^verbatim>\<open>undefined\<close> for a property that is not
  there. A number is kept as the string that converting it to a string gives, the only
  operation the program can apply to one. An object is the list of its own properties,
  each name once (were a name to occur twice, the first entry is the property).
\<close>

datatype jsval =
    JUndefined
  | JNull
  | JBool bool
  | JNum jsstring
  | JStr jsstring
  | JArr "jsval list"
  | JObj "(jsstring \<times> jsval) list"

text \<open>
  The world outside the module.
  \<^item> \<open>fetch w url\<close>: what \<^verbatim>\<open>fetch(url)\<close> settles to.
  \<^item> \<open>readAsDataURL w b\<close>: the \<^verbatim>\<open>result\<close> of a \<^verbatim>\<open>FileReader\<close> that read the blob as a data
    URL, or the failure passed to \<^verbatim>\<open>onerror\<close>.
  \<^item> \<open>generateContent_image w d\<close>: the answer of the vision model to the request of lines
    61 to 100, whose only varying part is the image data \<open>d\<close>.
  \<^item> \<open>JSON_parse w\<close>: \<^verbatim>\<open>JSON.parse\<close>.
  \<^item> \<open>generateContent_tts w k t\<close>: the answer of the speech model to the \<open>k\<close>-th request
    of a call (counted from 0), for the text \<open>t\<close>.
  \<^item> \<open>new_AudioContext w r\<close>: \<^verbatim>\<open>new AudioContextClass({ sampleRate: r })\<close>, which throws
    where the browser has no such class or refuses the rate.
\<close>

record world =
  fetch :: "jsstring \<Rightarrow> exn + Response"
  readAsDataURL :: "Blob \<Rightarrow> exn + jsstring"
  generateContent_image :: "jsstring option \<Rightarrow> exn + GenerateContentResponse"
  JSON_parse :: "jsstring \<Rightarrow> exn + jsval"
  generateContent_tts :: "nat \<Rightarrow> jsstring \<Rightarrow> exn + GenerateContentResponse"
  new_AudioContext :: "nat \<Rightarrow> exn + AudioContext"

text \<open>\<^verbatim>\<open>s.split(',')\<close> and the element at index 1 (\<open>None\<close> when there is none).\<close>

fun split_on :: "code_unit \<Rightarrow> jsstring \<Rightarrow> jsstring list" where
  "split_on sep [] = [[]]"
| "split_on sep (c # cs) =
     (if c = sep then [] # split_on sep cs
      else (case split_on sep cs of
              [] \<Rightarrow> [[c]]
            | p # ps \<Rightarrow> (c # p) # ps))"

definition index1 :: "'a list \<Rightarrow> 'a option" where
  "index1 xs = (case xs of _ # x # _ \<Rightarrow> Some x | _ \<Rightarrow> None)"

definition blobToBase64 :: "world \<Rightarrow> Blob \<Rightarrow> exn + jsstring option" where
  "blobToBase64 w b =
     (case readAsDataURL w b of
        Inl e \<Rightarrow> Inl e
      | Inr base64String \<Rightarrow> Inr (index1 (split_on 0x2C base64String)))"

text \<open>
  \<^verbatim>\<open>encodeURIComponent\<close>, after ECMAScript's \<^verbatim>\<open>Encode\<close>: the unreserved characters stay,
  every other code point is written as the \<^verbatim>\<open>%XX\<close> of its UTF-8 bytes, and a surrogate
  without its partner throws \<^verbatim>\<open>URIError\<close>.
\<close>

definition uri_unreserved :: "code_unit \<Rightarrow> bool" where
  "uri_unreserved c =
     ((0x41 \<le> c \<and> c \<le> 0x5A) \<or> (0x61 \<le> c \<and> c \<le> 0x7A) \<or> (0x30 \<le> c \<and> c \<le> 0x39)
      \<or> c = 0x2D \<or> c = 0x5F \<or> c = 0x2E \<or> c = 0x21 \<or> c = 0x7E \<or> c = 0x2A
      \<or> c = 0x27 \<or> c = 0x28 \<or> c = 0x29)"

definition utf8 :: "nat \<Rightarrow> nat list" where
  "utf8 cp =
     (if cp < 0x80 then [cp]
      else if cp < 0x800 then [0xC0 + cp div 64, 0x80 + cp mod 64]
      else if cp < 0x10000 then [0xE0 + cp div 4096, 0x80 + cp div 64 mod 64, 0x80 + cp mod 64]
      else [0xF0 + cp div 262144, 0x80 + cp div 4096 mod 64, 0x80 + cp div 64 mod 64,
            0x80 + cp mod 64])"

definition hex_digit :: "nat \<Rightarrow> code_unit" where
  "hex_digit n = (if n < 10 then of_nat (0x30 + n) else of_nat (0x41 + (n - 10)))"

definition percent :: "nat \<Rightarrow> jsstring" where
  "percent byte = [0x25, hex_digit (byte div 16), hex_digit (byte mod 16)]"

definition prepend :: "jsstring \<Rightarrow> exn + jsstring \<Rightarrow> exn + jsstring" where
  "prepend p r = (case r of Inl e \<Rightarrow> Inl e | Inr s \<Rightarrow> Inr (p @ s))"

fun encodeURIComponent :: "jsstring \<Rightarrow> exn + jsstring" where
  "encodeURIComponent [] = Inr []"
| "encodeURIComponent (c # cs) =
     (if uri_unreserved c then prepend [c] (encodeURIComponent cs)
      else if 0xDC00 \<le> c \<and> c \<le> 0xDFFF then Inl URIError
      else if 0xD800 \<le> c \<and> c \<le> 0xDBFF then
        (case cs of
           [] \<Rightarrow> Inl URIError
         | c2 # cs' \<Rightarrow>
             if 0xDC00 \<le> c2 \<and> c2 \<le> 0xDFFF
             then prepend
                    (concat (map percent
                       (utf8 ((unat c - 0xD800) * 0x400 + (unat c2 - 0xDC00) + 0x10000))))
                    (encodeURIComponent cs')
             else Inl URIError)
      else prepend (concat (map percent (utf8 (unat c)))) (encodeURIComponent cs))"

text \<open>
  The message of line 49, in code units. It reads: the image file cannot be read; the
  cause may be 1. the link is invalid, 2. the file's permission is not public,
  3. cross-domain access (CORS) was refused.
\<close>

definition retrieval_message :: jsstring where
  "retrieval_message =
     [0x7121, 0x6CD5, 0x8B80, 0x53D6, 0x5716, 0x7247, 0x6A94, 0x6848, 0x3002,
      0x539F, 0x56E0, 0x53EF, 0x80FD, 0x662F, 0xFF1A,
      0x0031, 0x002E, 0x0020, 0x9023, 0x7D50, 0x7121, 0x6548,
      0x0020, 0x0032, 0x002E, 0x0020, 0x6A94, 0x6848, 0x6B0A, 0x9650, 0x672A, 0x516C,
      0x958B,
      0x0020, 0x0033, 0x002E, 0x0020, 0x8DE8, 0x7DB2, 0x57DF, 0x5B58, 0x53D6, 0x0020,
      0x0028, 0x0043, 0x004F, 0x0052, 0x0053, 0x0029, 0x0020, 0x88AB, 0x62D2, 0x7D55,
      0x3002]"

text \<open>
  \<open>direct_fetch\<close> is the body of the outer \<^verbatim>\<open>try\<close> (lines 31 to 34), \<open>proxy_fetch\<close> the
  body of the inner one (lines 42 to 46). Each \<^verbatim>\<open>catch\<close> drops the exception it caught.
\<close>

definition direct_fetch :: "world \<Rightarrow> jsstring \<Rightarrow> exn + jsstring option" where
  "direct_fetch w url =
     (case fetch w url of
        Inl e \<Rightarrow> Inl e
      | Inr response \<Rightarrow>
          if \<not> ok response
          then Inl (Error (ascii ''Direct fetch failed: '' @ statusText response))
          else (case blob response of
                  Inl e \<Rightarrow> Inl e
                | Inr b \<Rightarrow> blobToBase64 w b))"

definition proxy_fetch :: "world \<Rightarrow> jsstring \<Rightarrow> exn + jsstring option" where
  "proxy_fetch w url =
     (case encodeURIComponent url of
        Inl e \<Rightarrow> Inl e
      | Inr encoded \<Rightarrow>
          (let proxyUrl = ascii ''https://corsproxy.io/?'' @ encoded
           in case fetch w proxyUrl of
                Inl e \<Rightarrow> Inl e
              | Inr proxyResponse \<Rightarrow>
                  if \<not> ok proxyResponse
                  then Inl (Error (ascii ''Proxy fetch failed: '' @ statusText proxyResponse))
                  else (case blob proxyResponse of
                          Inl e \<Rightarrow> Inl e
                        | Inr proxyBlob \<Rightarrow> blobToBase64 w proxyBlob)))"

definition fileToGenerativePart :: "world \<Rightarrow> jsstring \<Rightarrow> exn + jsstring option" where
  "fileToGenerativePart w url =
     (case direct_fetch w url of
        Inr base64 \<Rightarrow> Inr base64
      | Inl error \<Rightarrow>
          (case proxy_fetch w url of
             Inr base64 \<Rightarrow> Inr base64
           | Inl proxyError \<Rightarrow> Inl (Error retrieval_message)))"

subsection \<open>The analysis call (lines 57 to 122)\<close>

text \<open>
  The classes of the regular expression \<^verbatim>\<open>/^[\s\d\.\u2460-\u2473]+/\<close> of line 107.
  \<^verbatim>\<open>\s\<close> is ECMAScript's white space and line terminators; \<^verbatim>\<open>\d\<close> is the ten ASCII
  digits.
\<close>

definition regex_space :: "code_unit \<Rightarrow> bool" where
  "regex_space c =
     (c = 0x0009 \<or> c = 0x000A \<or> c = 0x000B \<or> c = 0x000C \<or> c = 0x000D \<or> c = 0x0020
      \<or> c = 0x00A0 \<or> c = 0x1680 \<or> (0x2000 \<le> c \<and> c \<le> 0x200A) \<or> c = 0x2028
      \<or> c = 0x2029 \<or> c = 0x202F \<or> c = 0x205F \<or> c = 0x3000 \<or> c = 0xFEFF)"

definition regex_digit :: "code_unit \<Rightarrow> bool" where
  "regex_digit c = (0x0030 \<le> c \<and> c \<le> 0x0039)"

definition marker_class :: "code_unit \<Rightarrow> bool" where
  "marker_class c =
     (regex_space c \<or> regex_digit c \<or> c = 0x002E \<or> (0x2460 \<le> c \<and> c \<le> 0x2473))"

text \<open>
  Matching \<^verbatim>\<open>^[class]+\<close>: the pattern is anchored at the start and the quantifier is
  greedy with nothing after it, so the match, when there is one, is the longest run of
  class members at the start. \<open>match_start_plus\<close> gives its length, and \<open>None\<close> when the
  first code unit is not in the class (or there is none).
\<close>

fun class_run :: "(code_unit \<Rightarrow> bool) \<Rightarrow> jsstring \<Rightarrow> nat" where
  "class_run cls [] = 0"
| "class_run cls (c # cs) = (if cls c then Suc (class_run cls cs) else 0)"

definition match_start_plus :: "(code_unit \<Rightarrow> bool) \<Rightarrow> jsstring \<Rightarrow> nat option" where
  "match_start_plus cls s = (let n = class_run cls s in if n = 0 then None else Some n)"

text \<open>
  \<^verbatim>\<open>s.replace(re, '')\<close> for a pattern without the \<^verbatim>\<open>g\<close> flag: the first match is cut
  out, and a string without a match is returned as it is.
\<close>

definition cleanVocab :: "jsstring \<Rightarrow> jsstring" where
  "cleanVocab s =
     (case match_start_plus marker_class s of
        None \<Rightarrow> s
      | Some n \<Rightarrow> drop n s)"

text \<open>
  Reading a property that no prototype defines (\<^verbatim>\<open>vocab\<close>, \<^verbatim>\<open>sentence\<close>, \<^verbatim>\<open>reading\<close>):
  \<^verbatim>\<open>TypeError\<close> on \<^verbatim>\<open>null\<close> and \<^verbatim>\<open>undefined\<close>, the own property of an object, and
  \<^verbatim>\<open>undefined\<close> in every other case.
\<close>

definition get_property :: "jsval \<Rightarrow> jsstring \<Rightarrow> exn + jsval" where
  "get_property v k =
     (case v of
        JUndefined \<Rightarrow> Inl TypeError
      | JNull \<Rightarrow> Inl TypeError
      | JObj props \<Rightarrow> Inr (case map_of props k of None \<Rightarrow> JUndefined | Some x \<Rightarrow> x)
      | _ \<Rightarrow> Inr JUndefined)"

text \<open>
  \<^verbatim>\<open>v.replace(re, '')\<close> for a value of any kind: only a string has a callable
  \<^verbatim>\<open>replace\<close>; on every other value the call throws \<^verbatim>\<open>TypeError\<close>.
\<close>

definition call_replace :: "jsval \<Rightarrow> exn + jsstring" where
  "call_replace v = (case v of JStr s \<Rightarrow> Inr (cleanVocab s) | _ \<Rightarrow> Inl TypeError)"

text \<open>
  The conversion to a string that a template literal applies. An array is joined with
  commas, \<^verbatim>\<open>null\<close> and \<^verbatim>\<open>undefined\<close> elements giving the empty string. An object made by
  \<^verbatim>\<open>JSON.parse\<close> gives \<^verbatim>\<open>[object Object]\<close>, unless it has an own property
  \<^verbatim>\<open>toString\<close>, which is then not callable and makes the conversion throw.
\<close>

fun ToString :: "jsval \<Rightarrow> exn + jsstring"
  and join_elements :: "jsval list \<Rightarrow> exn + jsstring" where
  "ToString JUndefined = Inr (ascii ''undefined'')"
| "ToString JNull = Inr (ascii ''null'')"
| "ToString (JBool b) = Inr (if b then ascii ''true'' else ascii ''false'')"
| "ToString (JNum rendering) = Inr rendering"
| "ToString (JStr s) = Inr s"
| "ToString (JArr xs) = join_elements xs"
| "ToString (JObj props) =
     (if map_of props (ascii ''toString'') = None then Inr (ascii ''[object Object]'')
      else Inl TypeError)"
| "join_elements [] = Inr []"
| "join_elements (x # xs) =
     (case (if x = JUndefined \<or> x = JNull then Inr [] else ToString x) of
        Inl e \<Rightarrow> Inl e
      | Inr s \<Rightarrow>
          if xs = [] then Inr s
          else (case join_elements xs of
                  Inl e \<Rightarrow> Inl e
                | Inr rest \<Rightarrow> Inr (s @ [0x2C] @ rest)))"

text \<open>
  The result. The interface declares four strings; at run time \<^verbatim>\<open>sentence\<close> and
  \<^verbatim>\<open>reading\<close> hold whatever the parsed answer has under these names.
\<close>

record AnalysisResult =
  vocab :: jsstring
  sentence :: jsval
  reading :: jsval
  japanese :: jsstring

text \<open>Lines 107 to 114, from the parsed answer to the result.\<close>

definition build_result :: "jsval \<Rightarrow> exn + AnalysisResult" where
  "build_result parsed =
     (case get_property parsed (ascii ''vocab'') of
        Inl e \<Rightarrow> Inl e
      | Inr v \<Rightarrow>
          (case call_replace v of
             Inl e \<Rightarrow> Inl e
           | Inr clean \<Rightarrow>
               (case get_property parsed (ascii ''sentence'') of
                  Inl e \<Rightarrow> Inl e
                | Inr s \<Rightarrow>
                    (case get_property parsed (ascii ''reading'') of
                       Inl e \<Rightarrow> Inl e
                     | Inr r \<Rightarrow>
                         (case ToString s of
                            Inl e \<Rightarrow> Inl e
                          | Inr shown \<Rightarrow>
                              Inr \<lparr>vocab = clean, sentence = s, reading = r,
                                   japanese = clean @ [0x000A] @ shown\<rparr>)))))"

text \<open>
  Lines 102 to 116: an answer without text, or with the empty string as text, throws;
  any other text is parsed.
\<close>

definition read_response :: "world \<Rightarrow> GenerateContentResponse \<Rightarrow> exn + AnalysisResult" where
  "read_response w response =
     (case response_text response of
        None \<Rightarrow> Inl (Error (ascii ''No response text generated''))
      | Some t \<Rightarrow>
          if t = [] then Inl (Error (ascii ''No response text generated''))
          else (case JSON_parse w t of
                  Inl e \<Rightarrow> Inl e
                | Inr parsed \<Rightarrow> build_result parsed))"

text \<open>The \<^verbatim>\<open>catch\<close> of line 118 logs the exception and throws it again.\<close>

definition analyzeJapaneseImage :: "world \<Rightarrow> jsstring \<Rightarrow> exn + AnalysisResult" where
  "analyzeJapaneseImage w imageUrl =
     (case fileToGenerativePart w imageUrl of
        Inl e \<Rightarrow> Inl e
      | Inr base64Data \<Rightarrow>
          (case generateContent_image w base64Data of
             Inl e \<Rightarrow> Inl e
           | Inr response \<Rightarrow> read_response w response))"

subsection \<open>The speech calls (lines 151 to 225)\<close>

text \<open>
  \<^verbatim>\<open>response.candidates?.[0]?.content?.parts?.[0]?.inlineData?.data\<close> (line 164): each
  step gives \<^verbatim>\<open>undefined\<close> when what it is applied to is missing.
\<close>

definition index0 :: "'a list \<Rightarrow> 'a option" where
  "index0 xs = (case xs of [] \<Rightarrow> None | x # _ \<Rightarrow> Some x)"

definition audio_data :: "GenerateContentResponse \<Rightarrow> jsstring option" where
  "audio_data response =
     (case candidates response of
        None \<Rightarrow> None
      | Some cs \<Rightarrow>
          (case index0 cs of
             None \<Rightarrow> None
           | Some c \<Rightarrow>
               (case content c of
                  None \<Rightarrow> None
                | Some ct \<Rightarrow>
                    (case parts ct of
                       None \<Rightarrow> None
                     | Some ps \<Rightarrow>
                         (case index0 ps of
                            None \<Rightarrow> None
                          | Some p \<Rightarrow>
                              (case inlineData p of
                                 None \<Rightarrow> None
                               | Some d \<Rightarrow> data d))))))"

text \<open>
  \<open>fetchTTSBase64\<close> has one \<^verbatim>\<open>await\<close>. Calling it sends the request at once and gives a
  promise; \<open>fetchTTSBase64_resume\<close> is what runs when the request has settled (lines 164
  to 166), and its value settles the promise. \<^verbatim>\<open>!base64\<close> holds for \<^verbatim>\<open>undefined\<close> and
  for the empty string.
\<close>

definition fetchTTSBase64_resume :: "exn + GenerateContentResponse \<Rightarrow> exn + jsstring" where
  "fetchTTSBase64_resume settled =
     (case settled of
        Inl e \<Rightarrow> Inl e
      | Inr response \<Rightarrow>
          (case audio_data response of
             None \<Rightarrow> Inl (Error (ascii ''No audio data returned from API''))
           | Some base64 \<Rightarrow>
               if base64 = [] then Inl (Error (ascii ''No audio data returned from API''))
               else Inr base64))"

definition fetchTTSBase64 :: "world \<Rightarrow> nat \<Rightarrow> jsstring \<Rightarrow> exn + jsstring" where
  "fetchTTSBase64 w k t = fetchTTSBase64_resume (generateContent_tts w k t)"

definition generatePronunciation :: "world \<Rightarrow> jsstring \<Rightarrow> exn + AudioBuffer" where
  "generatePronunciation w t =
     (case fetchTTSBase64 w 0 t of
        Inl e \<Rightarrow> Inl e
      | Inr base64Audio \<Rightarrow>
          (case new_AudioContext w 24000 of
             Inl e \<Rightarrow> Inl e
           | Inr audioContext \<Rightarrow> decodePCM base64Audio audioContext))"

text \<open>
  Lines 205 to 219. \<open>channelData\<close> is the storage of channel 0 of the combined buffer, so
  what \<^verbatim>\<open>set\<close> writes through it is written to the buffer: the model puts the array
  back after the two calls.
\<close>

definition sequence_buffers :: "AudioContext \<Rightarrow> AudioBuffer \<Rightarrow> AudioBuffer \<Rightarrow> exn + AudioBuffer" where
  "sequence_buffers ctx buf1 buf2 =
     (let pauseDuration = 3;
          pauseSamples = pauseDuration * 24000;
          totalLength = buffer_length buf1 + pauseSamples + buffer_length buf2
      in case createBuffer ctx 1 totalLength 24000 of
           Inl e \<Rightarrow> Inl e
         | Inr combinedBuffer \<Rightarrow>
             (case getChannelData combinedBuffer 0 of
                Inl e \<Rightarrow> Inl e
              | Inr channelData \<Rightarrow>
                  (case getChannelData buf1 0 of
                     Inl e \<Rightarrow> Inl e
                   | Inr data1 \<Rightarrow>
                       (case typed_array_set channelData data1 0 of
                          Inl e \<Rightarrow> Inl e
                        | Inr channelData1 \<Rightarrow>
                            (case getChannelData buf2 0 of
                               Inl e \<Rightarrow> Inl e
                             | Inr data2 \<Rightarrow>
                                 (case typed_array_set channelData1 data2
                                         (buffer_length buf1 + pauseSamples) of
                                    Inl e \<Rightarrow> Inl e
                                  | Inr channelData2 \<Rightarrow>
                                      Inr (combinedBuffer
                                            \<lparr>channels :=
                                               (channels combinedBuffer)[0 := channelData2]\<rparr>)))))))"

text \<open>
  \<^verbatim>\<open>Promise.all\<close> of two promises whose requests are in flight. The two settle in an
  order the program does not control: \<open>order\<close> says which settles first. The combined
  promise rejects as soon as one of them rejects, with that exception, and is fulfilled
  with both values, in the order of the array, once both are fulfilled. The function
  also gives the settlements the awaiting code has seen, as request numbers.
\<close>

datatype order = FirstSettlesFirst | SecondSettlesFirst

definition promise_all2 :: "order \<Rightarrow> exn + 'a \<Rightarrow> exn + 'b \<Rightarrow> nat list \<times> (exn + 'a \<times> 'b)" where
  "promise_all2 ord p1 p2 =
     (case ord of
        FirstSettlesFirst \<Rightarrow>
          (case p1 of
             Inl e \<Rightarrow> ([0], Inl e)
           | Inr a \<Rightarrow> (case p2 of Inl e \<Rightarrow> ([0, 1], Inl e) | Inr b \<Rightarrow> ([0, 1], Inr (a, b))))
      | SecondSettlesFirst \<Rightarrow>
          (case p2 of
             Inl e \<Rightarrow> ([1], Inl e)
           | Inr b \<Rightarrow> (case p1 of Inl e \<Rightarrow> ([1, 0], Inl e) | Inr a \<Rightarrow> ([1, 0], Inr (a, b)))))"

text \<open>
  What a run of \<open>generateSequentialPronunciation\<close> does to the outside, in the order it
  happens: \<open>Request k t\<close> is the \<open>k\<close>-th speech request, for the text \<open>t\<close>;
  \<open>Settled k\<close> is the moment its promise settles.
\<close>

datatype event = Request nat jsstring | Settled nat

text \<open>
  Calling an \<^verbatim>\<open>async\<close> function runs its body up to the first \<^verbatim>\<open>await\<close> and returns a
  promise. For \<open>fetchTTSBase64\<close> that is the call of \<^verbatim>\<open>generateContent\<close> at line 152: the
  request leaves during the call, and the promise holds what \<open>fetchTTSBase64\<close> will
  settle to.
\<close>

definition call_fetchTTSBase64 ::
  "world \<Rightarrow> nat \<Rightarrow> jsstring \<Rightarrow> event list \<times> (exn + jsstring)" where
  "call_fetchTTSBase64 w k t = ([Request k t], fetchTTSBase64 w k t)"

text \<open>
  The array of line 192 is built, element by element, before \<^verbatim>\<open>Promise.all\<close> is called
  and before the \<^verbatim>\<open>await\<close>: first the call for the vocab, then the call for the
  sentence. The function gives up control only at the \<^verbatim>\<open>await\<close>, so nothing settles
  before that.
\<close>

definition generateSequentialPronunciation ::
  "world \<Rightarrow> order \<Rightarrow> jsstring \<Rightarrow> jsstring \<Rightarrow> event list \<times> (exn + AudioBuffer)" where
  "generateSequentialPronunciation w ord vocabText sentenceText =
     (let (sent1, promise1) = call_fetchTTSBase64 w 0 vocabText;
          (sent2, promise2) = call_fetchTTSBase64 w 1 sentenceText;
          (settled, both) = promise_all2 ord promise1 promise2;
          trace = sent1 @ sent2 @ map Settled settled
      in (trace,
          case both of
            Inl e \<Rightarrow> Inl e
          | Inr (base64Vocab, base64Sentence) \<Rightarrow>
              (case new_AudioContext w 24000 of
                 Inl e \<Rightarrow> Inl e
               | Inr ctx \<Rightarrow>
                   (case decodePCM base64Vocab ctx of
                      Inl e \<Rightarrow> Inl e
                    | Inr buf1 \<Rightarrow>
                        (case decodePCM base64Sentence ctx of
                           Inl e \<Rightarrow> Inl e
                         | Inr buf2 \<Rightarrow> sequence_buffers ctx buf1 buf2)))))"

subsection \<open>Notions the properties are stated with\<close>

text \<open>
  The signed 16-bit integer whose low byte is \<open>lo\<close> and whose high byte is \<open>hi\<close>: the
  unsigned value, less \<open>2\<^sup>1\<^sup>6\<close> from \<open>2\<^sup>1\<^sup>5\<close> on.
\<close>

definition le_int16 :: "8 word \<Rightarrow> 8 word \<Rightarrow> int" where
  "le_int16 lo hi =
     (let u = uint lo + 256 * uint hi in if u < 32768 then u else u - 65536)"

fun is_request :: "event \<Rightarrow> bool" where
  "is_request (Request k t) = True"
| "is_request (Settled k) = False"

text \<open>
  The parts of the message of line 49: the opening, and the three causes it names (an
  invalid link, a file that is not public, a cross-origin refusal).
\<close>

definition msg_cannot_read :: jsstring where
  "msg_cannot_read =
     [0x7121, 0x6CD5, 0x8B80, 0x53D6, 0x5716, 0x7247, 0x6A94, 0x6848, 0x3002,
      0x539F, 0x56E0, 0x53EF, 0x80FD, 0x662F, 0xFF1A]"

definition msg_invalid_link :: jsstring where
  "msg_invalid_link = [0x0031, 0x002E, 0x0020, 0x9023, 0x7D50, 0x7121, 0x6548]"

definition msg_not_public :: jsstring where
  "msg_not_public =
     [0x0020, 0x0032, 0x002E, 0x0020, 0x6A94, 0x6848, 0x6B0A, 0x9650, 0x672A, 0x516C,
      0x958B]"

definition msg_cors_refused :: jsstring where
  "msg_cors_refused =
     [0x0020, 0x0033, 0x002E, 0x0020, 0x8DE8, 0x7DB2, 0x57DF, 0x5B58, 0x53D6, 0x0020,
      0x0028, 0x0043, 0x004F, 0x0052, 0x0053, 0x0029, 0x0020, 0x88AB, 0x62D2, 0x7D55,
      0x3002]"

text \<open>The texts of the examples: \<^verbatim>\<open>tango\<close> is the word of two characters (U+5358 U+8A9E),
  \<^verbatim>\<open>reibun\<close> the sentence of five (U+4F8B U+6587 U+3067 U+3059 U+3002).\<close>

definition tango :: jsstring where
  "tango = [0x5358, 0x8A9E]"

definition reibun :: jsstring where
  "reibun = [0x4F8B, 0x6587, 0x3067, 0x3059, 0x3002]"

subsection \<open>A concrete world, for running the functions\<close>

text \<open>
  In this world the direct fetch of every URL fails. The proxy serves three bytes for
  one URL; the reader, the vision model and \<^verbatim>\<open>JSON.parse\<close> answer for exactly these
  bytes and this text. The speech model answers the first request with two samples and
  every later one with one sample.
\<close>

definition tts_answer :: "jsstring \<Rightarrow> GenerateContentResponse" where
  "tts_answer payload =
     \<lparr>response_text = None,
      candidates = Some [\<lparr>content = Some \<lparr>parts = Some [\<lparr>inlineData = Some \<lparr>data = Some payload\<rparr>\<rparr>]\<rparr>\<rparr>]\<rparr>"

definition example_json :: jsstring where
  \<open>example_json =
     ascii ''{"vocab":"'' @ [0x2460] @ tango @ ascii ''","sentence":"'' @ reibun
       @ ascii ''","reading":"'' @ [0x305F, 0x3093, 0x3054] @ ascii ''"}''\<close>

definition example_parsed :: jsval where
  "example_parsed =
     JObj [(ascii ''vocab'', JStr ([0x2460] @ tango)),
           (ascii ''sentence'', JStr reibun),
           (ascii ''reading'', JStr [0x305F, 0x3093, 0x3054])]"

definition example_url :: jsstring where
  "example_url = ascii ''https://example.com/card 1.jpg''"

definition example_world :: world where
  "example_world =
     \<lparr>fetch = (\<lambda>u. if u = ascii ''https://corsproxy.io/?https%3A%2F%2Fexample.com%2Fcard%201.jpg''
                    then Inr \<lparr>ok = True, statusText = ascii ''OK'',
                              blob = Inr \<lparr>blob_type = ascii ''image/jpeg'',
                                          blob_bytes = [0xFF, 0xD8, 0xFF]\<rparr>\<rparr>
                    else Inl (NetworkFailure 0)),
      readAsDataURL = (\<lambda>b. if blob_bytes b = [0xFF, 0xD8, 0xFF]
                            then Inr (ascii ''data:'' @ blob_type b @ ascii '';base64,/9j/'')
                            else Inl (ReadFailure 0)),
      generateContent_image = (\<lambda>d. if d = Some (ascii ''/9j/'')
                                    then Inr \<lparr>response_text = Some example_json, candidates = None\<rparr>
                                    else Inl (NetworkFailure 1)),
      JSON_parse = (\<lambda>t. if t = example_json then Inr example_parsed else Inl SyntaxError),
      generateContent_tts = (\<lambda>k t. if k = 0 then Inr (tts_answer (ascii ''AQD/fw==''))
                                    else Inr (tts_answer (ascii ''AIA=''))),
      new_AudioContext = (\<lambda>r. Inr \<lparr>ctx_sampleRate = r\<rparr>)\<rparr>"

definition example_result :: AnalysisResult where
  "example_result =
     \<lparr>vocab = tango, sentence = JStr reibun, reading = JStr [0x305F, 0x3093, 0x3054],
      japanese = [0x5358, 0x8A9E, 0x000A, 0x4F8B, 0x6587, 0x3067, 0x3059, 0x3002]\<rparr>"

text \<open>
  The same world with a \<^verbatim>\<open>JSON.parse\<close> that returns an object without \<^verbatim>\<open>sentence\<close> and
  \<^verbatim>\<open>reading\<close>, and what the analysis returns there.
\<close>

definition partial_world :: world where
  "partial_world = example_world\<lparr>JSON_parse := \<lambda>t. Inr (JObj [(ascii ''vocab'', JStr tango)])\<rparr>"

definition partial_result :: AnalysisResult where
  "partial_result =
     \<lparr>vocab = tango, sentence = JUndefined, reading = JUndefined,
      japanese = tango @ [0x000A] @ ascii ''undefined''\<rparr>"

text \<open>
  The same world with a \<^verbatim>\<open>JSON.parse\<close> whose object has \<^verbatim>\<open>1. \<close> before the word as
  \<^verbatim>\<open>vocab\<close>, and no \<^verbatim>\<open>reading\<close>.
\<close>

definition numbered_world :: world where
  "numbered_world =
     example_world\<lparr>JSON_parse := \<lambda>t. Inr (JObj [(ascii ''vocab'', JStr (ascii ''1. '' @ tango)),
                                                   (ascii ''sentence'', JStr reibun)])\<rparr>"

section \<open>Properties\<close>

declare fill_bytes.simps [simp del] fill_floats.simps [simp del]

subsection \<open>The decoder\<close>

lemma uint_le_pair:
  "uint (ucast lo + 256 * ucast hi :: 16 word) = uint lo + 256 * uint hi"
  for lo hi :: "8 word"
proof -
  have lo: "uint lo < 256" using uint_bounded [of lo] by simp
  have hi: "uint hi < 256" using uint_bounded [of hi] by simp
  have "uint (ucast lo + 256 * ucast hi :: 16 word) = (uint lo + 256 * uint hi) mod 65536"
    by (simp add: uint_word_ariths uint_up_ucast is_up mod_add_right_eq mod_mult_right_eq)
  also have "\<dots> = uint lo + 256 * uint hi"
    using lo hi by (simp add: mod_pos_pos_trivial)
  finally show ?thesis .
qed

lemma sint_le_pair:
  "sint (ucast lo + 256 * ucast hi :: 16 word) = le_int16 lo hi"
  for lo hi :: "8 word"
proof -
  define u where "u = uint lo + 256 * uint hi"
  have lo: "0 \<le> uint lo" "uint lo < 256" using uint_bounded [of lo] by simp_all
  have hi: "0 \<le> uint hi" "uint hi < 256" using uint_bounded [of hi] by simp_all
  have u: "0 \<le> u" "u < 65536" using lo hi by (simp_all add: u_def)
  have "sint (ucast lo + 256 * ucast hi :: 16 word) = signed_take_bit 15 u"
    by (simp add: sint_uint uint_le_pair u_def)
  also have "\<dots> = (u + 32768) mod 65536 - 32768"
    by (simp add: signed_take_bit_eq_take_bit_shift take_bit_eq_mod)
  also have "\<dots> = (if u < 32768 then u else u - 65536)"
  proof (cases "u < 32768")
    case True
    then show ?thesis using u by (simp add: mod_pos_pos_trivial)
  next
    case False
    then have "(u + 32768) mod 65536 = u - 32768"
      using u by (simp add: mod_pos_geq mod_pos_pos_trivial)
    then show ?thesis using False by simp
  qed
  finally show ?thesis by (simp add: le_int16_def u_def Let_def)
qed

lemma le_int16_range: "- 32768 \<le> le_int16 lo hi \<and> le_int16 lo hi \<le> 32767"
proof -
  have "0 \<le> uint lo \<and> uint lo < 256 \<and> 0 \<le> uint hi \<and> uint hi < 256"
    using uint_bounded [of lo] uint_bounded [of hi] by simp
  then show ?thesis unfolding le_int16_def Let_def by presburger
qed

lemma signed_le_pair:
  "(signed (ucast lo + 256 * ucast hi :: 16 word) :: real) = real_of_int (le_int16 lo hi)"
  for lo hi :: "8 word"
proof -
  have "(signed (ucast lo + 256 * ucast hi :: 16 word) :: real)
          = real_of_int (sint (ucast lo + 256 * ucast hi :: 16 word))"
    by (rule of_int_sint [symmetric])
  then show ?thesis by (simp only: sint_le_pair)
qed

lemma fill_bytes_inv:
  "i \<le> length s \<Longrightarrow> length bytes = length s \<Longrightarrow>
   fill_bytes s i bytes = take i bytes @ map ucast (drop i s)"
proof (induction s i bytes rule: fill_bytes.induct)
  case (1 s i bytes)
  show ?case
  proof (cases "i < length s")
    case True
    have "fill_bytes s i bytes = fill_bytes s (Suc i) (bytes[i := ucast (s ! i)])"
      using True by (subst fill_bytes.simps) simp
    also have "\<dots> = take (Suc i) (bytes[i := ucast (s ! i)]) @ map ucast (drop (Suc i) s)"
      using True "1.prems" by (intro "1.IH") simp_all
    also have "\<dots> = take i bytes @ map ucast (drop i s)"
      using True "1.prems"
      by (simp add: take_Suc_conv_app_nth Cons_nth_drop_Suc [symmetric])
    finally show ?thesis .
  next
    case False
    then show ?thesis using "1.prems" by (subst fill_bytes.simps) simp
  qed
qed

lemma fill_bytes_all: "length bytes = length s \<Longrightarrow> fill_bytes s 0 bytes = map ucast s"
  by (simp add: fill_bytes_inv)

lemma fill_floats_inv:
  "i \<le> length v \<Longrightarrow> length d = length v \<Longrightarrow>
   fill_floats v i d = take i d @ map (\<lambda>x. real_of_int (sint x) / 32768) (drop i v)"
proof (induction v i d rule: fill_floats.induct)
  case (1 v i d)
  show ?case
  proof (cases "i < length v")
    case True
    have "fill_floats v i d = fill_floats v (Suc i) (d[i := real_of_int (sint (v ! i)) / 32768])"
      using True by (subst fill_floats.simps) simp
    also have "\<dots> = take (Suc i) (d[i := real_of_int (sint (v ! i)) / 32768])
                      @ map (\<lambda>x. real_of_int (sint x) / 32768) (drop (Suc i) v)"
      using True "1.prems" by (intro "1.IH") simp_all
    also have "\<dots> = take i d @ map (\<lambda>x. real_of_int (sint x) / 32768) (drop i v)"
      using True "1.prems"
      by (simp add: take_Suc_conv_app_nth Cons_nth_drop_Suc [symmetric])
    finally show ?thesis .
  next
    case False
    then show ?thesis using "1.prems" by (subst fill_floats.simps) simp
  qed
qed

lemma fill_floats_all:
  "length d = length v \<Longrightarrow> fill_floats v 0 d = map (\<lambda>x. real_of_int (sint x) / 32768) v"
  by (simp add: fill_floats_inv)

text \<open>What \<open>decodePCM\<close> computes, without the loops.\<close>

lemma decodePCM_cases:
  "decodePCM b ctx =
     (case atob b of
        Inl e \<Rightarrow> Inl e
      | Inr s \<Rightarrow>
          if odd (length s) then Inl RangeError
          else if s = [] then Inl NotSupportedError
          else Inr \<lparr>sampleRate = 24000,
                    channels =
                      [map (\<lambda>i. real_of_int (le_int16 (map ucast s ! (2 * i))
                                                     (map ucast s ! (2 * i + 1))) / 32768)
                         [0..<length s div 2]]\<rparr>)"
  apply (simp add: decodePCM_def fill_bytes_all fill_floats_all new_Int16Array_def Let_def
      createBuffer_def copyToChannel_def numberOfChannels_def o_def int16_at_def signed_le_pair
      split: sum.splits)
  apply (auto simp: odd_iff_mod_2_eq_one)
  done

lemma decodePCM_Inr:
  assumes "decodePCM b ctx = Inr buffer"
  obtains s where "atob b = Inr s" "even (length s)" "s \<noteq> []"
    "buffer = \<lparr>sampleRate = 24000,
               channels =
                 [map (\<lambda>i. real_of_int (le_int16 (map ucast s ! (2 * i))
                                                (map ucast s ! (2 * i + 1))) / 32768)
                    [0..<length s div 2]]\<rparr>"
  using assms unfolding decodePCM_cases by (auto split: sum.splits if_splits)

lemma atob_AQD_fw: "atob (ascii ''AQD/fw=='') = Inr [1, 0, 255, 127]"
  by (simp add: atob_def ascii_def is_ascii_whitespace_def strip_padding_def base64_index_def)

lemma atob_AQD: "atob (ascii ''AQD/'') = Inr [1, 0, 255]"
  by (simp add: atob_def ascii_def is_ascii_whitespace_def strip_padding_def base64_index_def)

lemma atob_AIA: "atob (ascii ''AIA='') = Inr [0, 128]"
  by (simp add: atob_def ascii_def is_ascii_whitespace_def strip_padding_def base64_index_def)

lemma decode_AQD_fw:
  "decodePCM (ascii ''AQD/fw=='') ctx
     = Inr \<lparr>sampleRate = 24000, channels = [[1 / 32768, 32767 / 32768]]\<rparr>"
  by (simp add: decodePCM_cases atob_AQD_fw le_int16_def upt_rec)

lemma decode_AIA:
  "decodePCM (ascii ''AIA='') ctx = Inr \<lparr>sampleRate = 24000, channels = [[- 1]]\<rparr>"
  by (simp add: decodePCM_cases atob_AIA le_int16_def upt_rec)

text \<open>
  Claim C1, for a payload that is not empty. When the payload decodes to \<open>2 * n\<close> bytes
  with \<open>n > 0\<close>, \<open>decodePCM\<close> returns a buffer of one channel with exactly \<open>n\<close> samples;
  sample \<open>i\<close> is the \<open>i\<close>-th little-endian signed 16-bit integer of the bytes divided by
  32768, and lies between -1 and 1. The order of the samples is that of the integers.
\<close>

theorem decodePCM_samples:
  assumes "atob base64Data = Inr binaryString"
    and "bytes = map ucast binaryString"
    and "length bytes = 2 * n"
    and "0 < n"
  shows "\<exists>buffer. decodePCM base64Data ctx = Inr buffer
           \<and> numberOfChannels buffer = 1 \<and> sampleRate buffer = 24000
           \<and> buffer_length buffer = n \<and> length (channels buffer ! 0) = n
           \<and> (\<forall>i<n. channels buffer ! 0 ! i
                        = real_of_int (le_int16 (bytes ! (2 * i)) (bytes ! (2 * i + 1))) / 32768
                      \<and> - 1 \<le> channels buffer ! 0 ! i \<and> channels buffer ! 0 ! i \<le> 1)"
proof -
  let ?f = "\<lambda>i. real_of_int (le_int16 (bytes ! (2 * i)) (bytes ! (2 * i + 1))) / 32768"
  let ?buffer = "\<lparr>sampleRate = 24000, channels = [map ?f [0..<n]]\<rparr>"
  have len: "length binaryString = 2 * n" using assms(2,3) by simp
  then have "binaryString \<noteq> []" using assms(4) by auto
  then have dec: "decodePCM base64Data ctx = Inr ?buffer"
    using assms(1,2) len by (simp add: decodePCM_cases)
  have range: "- 1 \<le> ?f i \<and> ?f i \<le> 1" for i
    using le_int16_range [of "bytes ! (2 * i)" "bytes ! (2 * i + 1)"] by simp
  show ?thesis
    using range by (intro exI [of _ ?buffer]) (simp add: dec numberOfChannels_def buffer_length_def)
qed

theorem decodePCM_samples_witness:
  "\<exists>buffer. decodePCM (ascii ''AQD/fw=='') \<lparr>ctx_sampleRate = 24000\<rparr> = Inr buffer
     \<and> buffer_length buffer = 2
     \<and> channels buffer ! 0 ! 0 = 1 / 32768
     \<and> channels buffer ! 0 ! 1 = 32767 / 32768"
proof -
  have bytes: "[1, 0, 255, 127 :: 8 word] = map ucast [1, 0, 255, 127 :: 16 word]"
    by simp
  have len: "length [1, 0, 255, 127 :: 8 word] = 2 * 2" by simp
  have pos: "0 < (2::nat)" by simp
  from decodePCM_samples [OF atob_AQD_fw bytes len pos, of "\<lparr>ctx_sampleRate = 24000\<rparr>"]
  obtain buffer where b: "decodePCM (ascii ''AQD/fw=='') \<lparr>ctx_sampleRate = 24000\<rparr> = Inr buffer"
    "buffer_length buffer = 2"
    "\<forall>i<2. channels buffer ! 0 ! i
        = real_of_int (le_int16 ([1, 0, 255, 127] ! (2 * i)) ([1, 0, 255, 127] ! (2 * i + 1))) / 32768
        \<and> - 1 \<le> channels buffer ! 0 ! i \<and> channels buffer ! 0 ! i \<le> 1"
    by blast
  from b(3) have "channels buffer ! 0 ! 0 = 1 / 32768" "channels buffer ! 0 ! 1 = 32767 / 32768"
    by (simp_all add: le_int16_def)
  with b(1,2) show ?thesis by blast
qed

text \<open>
  Claim C1 as it is written includes \<open>n = 0\<close>. The payload of one space decodes to the
  empty byte buffer, of even length 0, and \<open>decodePCM\<close> throws: \<^verbatim>\<open>createBuffer\<close>
  refuses a length of 0.
\<close>

theorem decodePCM_empty_counterexample:
  "atob (ascii '' '') = Inr []
   \<and> length (map ucast ([] :: jsstring) :: 8 word list) = 2 * 0
   \<and> decodePCM (ascii '' '') \<lparr>ctx_sampleRate = 24000\<rparr> = Inl NotSupportedError"
proof -
  have "atob (ascii '' '') = Inr []"
    by (simp add: atob_def ascii_def is_ascii_whitespace_def strip_padding_def)
  then show ?thesis by (simp add: decodePCM_cases)
qed

text \<open>
  Claim C10. When the payload decodes to an odd number of bytes, \<open>decodePCM\<close> throws
  \<^verbatim>\<open>RangeError\<close>, from the 16-bit view of the bytes. When it returns a buffer, the number
  of bytes is even and the buffer has half as many samples.
\<close>

theorem decodePCM_odd_length:
  "(\<forall>s. atob b = Inr s \<and> odd (length s) \<longrightarrow> decodePCM b ctx = Inl RangeError)
   \<and> (\<forall>buffer. decodePCM b ctx = Inr buffer \<longrightarrow>
        (\<exists>s. atob b = Inr s \<and> even (length s)
           \<and> buffer_length buffer = length s div 2
           \<and> length (channels buffer ! 0) = length s div 2))"
proof (intro conjI allI impI)
  fix s assume "atob b = Inr s \<and> odd (length s)"
  then show "decodePCM b ctx = Inl RangeError" by (simp add: decodePCM_cases)
next
  fix buffer assume "decodePCM b ctx = Inr buffer"
  then obtain s where "atob b = Inr s" "even (length s)"
    "buffer = \<lparr>sampleRate = 24000,
               channels =
                 [map (\<lambda>i. real_of_int (le_int16 (map ucast s ! (2 * i))
                                                (map ucast s ! (2 * i + 1))) / 32768)
                    [0..<length s div 2]]\<rparr>"
    by (rule decodePCM_Inr)
  then show "\<exists>s. atob b = Inr s \<and> even (length s)
           \<and> buffer_length buffer = length s div 2
           \<and> length (channels buffer ! 0) = length s div 2"
    by (intro exI [of _ s]) (simp add: buffer_length_def)
qed

theorem decodePCM_odd_length_witness:
  "atob (ascii ''AQD/'') = Inr [1, 0, 255] \<and> odd (length [1, 0, 255 :: code_unit])
   \<and> decodePCM (ascii ''AQD/'') \<lparr>ctx_sampleRate = 24000\<rparr> = Inl RangeError
   \<and> (\<exists>buffer s. decodePCM (ascii ''AQD/fw=='') \<lparr>ctx_sampleRate = 24000\<rparr> = Inr buffer
         \<and> atob (ascii ''AQD/fw=='') = Inr s \<and> even (length s)
         \<and> buffer_length buffer = length s div 2)"
proof -
  have odd3: "odd (length [1, 0, 255 :: code_unit])" by simp
  have "decodePCM (ascii ''AQD/'') \<lparr>ctx_sampleRate = 24000\<rparr> = Inl RangeError"
    using decodePCM_odd_length [of "ascii ''AQD/''" "\<lparr>ctx_sampleRate = 24000\<rparr>"] atob_AQD odd3
    by blast
  moreover obtain buffer
    where dec: "decodePCM (ascii ''AQD/fw=='') \<lparr>ctx_sampleRate = 24000\<rparr> = Inr buffer"
    by (simp add: decodePCM_cases atob_AQD_fw)
  from decodePCM_odd_length [of "ascii ''AQD/fw==''" "\<lparr>ctx_sampleRate = 24000\<rparr>"] dec
  have "\<exists>s. atob (ascii ''AQD/fw=='') = Inr s \<and> even (length s)
         \<and> buffer_length buffer = length s div 2"
    by blast
  ultimately show ?thesis using atob_AQD odd3 dec by blast
qed

subsection \<open>Sequencing two buffers\<close>

lemma typed_array_set_first:
  "typed_array_set (replicate (length d1 + k) 0) d1 0 = Inr (d1 @ replicate k 0)"
  by (simp add: typed_array_set_def)

lemma typed_array_set_second:
  "typed_array_set (d1 @ replicate (k + length d2) 0) d2 (length d1 + k)
     = Inr (d1 @ replicate k 0 @ d2)"
  by (simp add: typed_array_set_def replicate_add)

lemma sequence_buffers_eq:
  assumes "channels buf1 = d1 # r1" and "channels buf2 = d2 # r2"
  shows "sequence_buffers ctx buf1 buf2
           = Inr \<lparr>sampleRate = 24000, channels = [d1 @ replicate (3 * 24000) 0 @ d2]\<rparr>"
proof -
  have len: "buffer_length buf1 = length d1" "buffer_length buf2 = length d2"
    using assms by (simp_all add: buffer_length_def)
  have nch: "numberOfChannels buf1 \<noteq> 0" "numberOfChannels buf2 \<noteq> 0"
    using assms by (simp_all add: numberOfChannels_def)
  have get: "getChannelData buf1 0 = Inr d1" "getChannelData buf2 0 = Inr d2"
    using assms by (simp_all add: getChannelData_def numberOfChannels_def)
  let ?total = "length d1 + 3 * 24000 + length d2"
  have create: "createBuffer ctx 1 ?total 24000
      = Inr \<lparr>sampleRate = 24000, channels = [replicate ?total 0]\<rparr>"
    by (simp add: createBuffer_def)
  have get0: "getChannelData \<lparr>sampleRate = 24000, channels = [replicate ?total 0]\<rparr> 0
      = Inr (replicate ?total 0)"
    by (simp add: getChannelData_def numberOfChannels_def)
  have set1: "typed_array_set (replicate ?total 0) d1 0
      = Inr (d1 @ replicate (3 * 24000 + length d2) 0)"
    using typed_array_set_first [of d1 "3 * 24000 + length d2"] by (simp add: add.assoc)
  have set2: "typed_array_set (d1 @ replicate (3 * 24000 + length d2) 0) d2
        (length d1 + 3 * 24000)
      = Inr (d1 @ replicate (3 * 24000) 0 @ d2)"
    by (rule typed_array_set_second)
  show ?thesis
    unfolding sequence_buffers_def Let_def len
    by (simp only: create get0 get set1 set2 sum.case AudioBuffer.simps list_update_code
        AudioBuffer.update_convs)
qed

lemma decoded_channels:
  assumes "decodePCM b ctx = Inr buffer"
  shows "\<exists>d. channels buffer = [d] \<and> d \<noteq> [] \<and> sampleRate buffer = 24000"
proof -
  from assms obtain s where s: "atob b = Inr s" "even (length s)" "s \<noteq> []"
    "buffer = \<lparr>sampleRate = 24000,
               channels =
                 [map (\<lambda>i. real_of_int (le_int16 (map ucast s ! (2 * i))
                                                (map ucast s ! (2 * i + 1))) / 32768)
                    [0..<length s div 2]]\<rparr>"
    by (rule decodePCM_Inr)
  from s(2) obtain k where k: "length s = 2 * k" by (elim evenE)
  with s(3) have "0 < length s div 2" by (cases k) simp_all
  with s(4) show ?thesis by simp
qed

lemma promise_all2_value:
  "snd (promise_all2 ord (Inr a) (Inr b)) = Inr (a, b)"
  by (simp add: promise_all2_def split: order.splits)

lemma promise_all2_Inr:
  "snd (promise_all2 ord p1 p2) = Inr (a, b) \<longleftrightarrow> p1 = Inr a \<and> p2 = Inr b"
  by (auto simp: promise_all2_def split: order.splits sum.splits)

lemma sequential_trace:
  "fst (generateSequentialPronunciation w ord v s)
     = [Request 0 v, Request 1 s]
       @ map Settled (fst (promise_all2 ord (fetchTTSBase64 w 0 v) (fetchTTSBase64 w 1 s)))"
  by (simp add: generateSequentialPronunciation_def call_fetchTTSBase64_def Let_def
      split: prod.splits)

lemma sequential_value:
  "snd (generateSequentialPronunciation w ord v s)
     = (case snd (promise_all2 ord (fetchTTSBase64 w 0 v) (fetchTTSBase64 w 1 s)) of
          Inl e \<Rightarrow> Inl e
        | Inr (x, y) \<Rightarrow>
            (case new_AudioContext w 24000 of
               Inl e \<Rightarrow> Inl e
             | Inr ctx \<Rightarrow>
                 (case decodePCM x ctx of
                    Inl e \<Rightarrow> Inl e
                  | Inr buf1 \<Rightarrow>
                      (case decodePCM y ctx of
                         Inl e \<Rightarrow> Inl e
                       | Inr buf2 \<Rightarrow> sequence_buffers ctx buf1 buf2))))"
  by (simp add: generateSequentialPronunciation_def call_fetchTTSBase64_def Let_def
      split: prod.splits)

lemma sequential_success:
  assumes "fetchTTSBase64 w 0 v = Inr x" "fetchTTSBase64 w 1 s = Inr y"
    "new_AudioContext w 24000 = Inr ctx" "decodePCM x ctx = Inr buf1" "decodePCM y ctx = Inr buf2"
  shows "snd (generateSequentialPronunciation w ord v s) = sequence_buffers ctx buf1 buf2"
  using assms by (simp add: sequential_value promise_all2_value)

lemma sequential_Inr:
  assumes "snd (generateSequentialPronunciation w ord v s) = Inr c"
  obtains x y ctx buf1 buf2 where
    "fetchTTSBase64 w 0 v = Inr x" "fetchTTSBase64 w 1 s = Inr y"
    "new_AudioContext w 24000 = Inr ctx" "decodePCM x ctx = Inr buf1" "decodePCM y ctx = Inr buf2"
    "sequence_buffers ctx buf1 buf2 = Inr c"
  using assms unfolding sequential_value
  by (auto split: sum.splits prod.splits simp: promise_all2_Inr)

lemma example_tts_0: "fetchTTSBase64 example_world 0 t = Inr (ascii ''AQD/fw=='')"
  by (simp add: example_world_def fetchTTSBase64_def fetchTTSBase64_resume_def audio_data_def
      tts_answer_def index0_def ascii_def)

lemma example_tts_1: "fetchTTSBase64 example_world 1 t = Inr (ascii ''AIA='')"
  by (simp add: example_world_def fetchTTSBase64_def fetchTTSBase64_resume_def audio_data_def
      tts_answer_def index0_def ascii_def)

lemma example_ctx: "new_AudioContext example_world 24000 = Inr \<lparr>ctx_sampleRate = 24000\<rparr>"
  by (simp add: example_world_def)

text \<open>
  Claim C2. For two buffers that \<open>decodePCM\<close> returned, of lengths \<open>a\<close> and \<open>b\<close>, and
  the rate \<open>r = 24000\<close>, the sequencing step (lines 205 to 219) returns a buffer of length
  exactly \<open>a + 3 * r + b\<close>: samples \<open>[0, a)\<close> are those of the first buffer, samples
  \<open>[a, a + 3 * r)\<close> are all 0, and samples \<open>[a + 3 * r, a + 3 * r + b)\<close> are those of
  the second. It is the buffer \<open>generateSequentialPronunciation\<close> returns when the two
  payloads are the answers to its requests.
\<close>

theorem sequence_layout:
  assumes "decodePCM base64Vocab ctx = Inr buf1"
    and "decodePCM base64Sentence ctx = Inr buf2"
    and "a = buffer_length buf1" and "b = buffer_length buf2" and "r = 24000"
  shows "\<exists>combined. sequence_buffers ctx buf1 buf2 = Inr combined
           \<and> buffer_length combined = a + 3 * r + b
           \<and> length (channels combined ! 0) = a + 3 * r + b
           \<and> (\<forall>i<a. channels combined ! 0 ! i = channels buf1 ! 0 ! i)
           \<and> (\<forall>i. a \<le> i \<and> i < a + 3 * r \<longrightarrow> channels combined ! 0 ! i = 0)
           \<and> (\<forall>i<b. channels combined ! 0 ! (a + 3 * r + i) = channels buf2 ! 0 ! i)
           \<and> (\<forall>w ord vocabText sentenceText.
                 fetchTTSBase64 w 0 vocabText = Inr base64Vocab
                 \<and> fetchTTSBase64 w 1 sentenceText = Inr base64Sentence
                 \<and> new_AudioContext w 24000 = Inr ctx
                 \<longrightarrow> snd (generateSequentialPronunciation w ord vocabText sentenceText)
                       = Inr combined)"
proof -
  from assms(1) obtain d1 where d1: "channels buf1 = [d1]" using decoded_channels by blast
  from assms(2) obtain d2 where d2: "channels buf2 = [d2]" using decoded_channels by blast
  let ?c = "\<lparr>sampleRate = 24000, channels = [d1 @ replicate (3 * 24000) 0 @ d2]\<rparr>"
  have seq: "sequence_buffers ctx buf1 buf2 = Inr ?c"
    using d1 d2 by (rule sequence_buffers_eq)
  have a: "a = length d1" and b: "b = length d2"
    using assms(3,4) d1 d2 by (simp_all add: buffer_length_def)
  have 1: "buffer_length ?c = a + 3 * r + b" "length (channels ?c ! 0) = a + 3 * r + b"
    by (simp_all add: buffer_length_def a b assms(5))
  have 2: "\<forall>i<a. channels ?c ! 0 ! i = channels buf1 ! 0 ! i"
    by (simp add: a d1 nth_append)
  have 3: "\<forall>i. a \<le> i \<and> i < a + 3 * r \<longrightarrow> channels ?c ! 0 ! i = 0"
    by (auto simp: a assms(5) nth_append)
  have 4: "\<forall>i<b. channels ?c ! 0 ! (a + 3 * r + i) = channels buf2 ! 0 ! i"
    by (simp add: a b d2 assms(5) nth_append)
  have 5: "\<forall>w ord vocabText sentenceText.
                 fetchTTSBase64 w 0 vocabText = Inr base64Vocab
                 \<and> fetchTTSBase64 w 1 sentenceText = Inr base64Sentence
                 \<and> new_AudioContext w 24000 = Inr ctx
                 \<longrightarrow> snd (generateSequentialPronunciation w ord vocabText sentenceText) = Inr ?c"
    using assms(1,2) seq by (simp add: sequential_success)
  show ?thesis
    using seq 1 2 3 4 5 by (intro exI [of _ ?c]) blast
qed

theorem sequence_layout_witness:
  "\<exists>buf1 buf2 combined.
      decodePCM (ascii ''AQD/fw=='') \<lparr>ctx_sampleRate = 24000\<rparr> = Inr buf1
    \<and> decodePCM (ascii ''AIA='') \<lparr>ctx_sampleRate = 24000\<rparr> = Inr buf2
    \<and> buffer_length buf1 = 2 \<and> buffer_length buf2 = 1
    \<and> sequence_buffers \<lparr>ctx_sampleRate = 24000\<rparr> buf1 buf2 = Inr combined
    \<and> buffer_length combined = 72003
    \<and> channels combined ! 0 ! 0 = 1 / 32768
    \<and> channels combined ! 0 ! 1 = 32767 / 32768
    \<and> channels combined ! 0 ! 2 = 0
    \<and> channels combined ! 0 ! 72001 = 0
    \<and> channels combined ! 0 ! 72002 = - 1
    \<and> snd (generateSequentialPronunciation example_world SecondSettlesFirst tango reibun)
          = Inr combined"
proof -
  let ?ctx = "\<lparr>ctx_sampleRate = 24000\<rparr>"
  let ?buf1 = "\<lparr>sampleRate = 24000, channels = [[1 / 32768, 32767 / 32768]]\<rparr>"
  let ?buf2 = "\<lparr>sampleRate = 24000, channels = [[- 1 :: real]]\<rparr>"
  have a: "2 = buffer_length ?buf1" and b: "1 = buffer_length ?buf2"
    by (simp_all add: buffer_length_def)
  have r: "(24000::nat) = 24000" by simp
  from sequence_layout [OF decode_AQD_fw decode_AIA a b r, of ?ctx]
  obtain combined where c:
    "sequence_buffers ?ctx ?buf1 ?buf2 = Inr combined
     \<and> buffer_length combined = 2 + 3 * 24000 + 1
     \<and> length (channels combined ! 0) = 2 + 3 * 24000 + 1
     \<and> (\<forall>i<2. channels combined ! 0 ! i = channels ?buf1 ! 0 ! i)
     \<and> (\<forall>i. 2 \<le> i \<and> i < 2 + 3 * 24000 \<longrightarrow> channels combined ! 0 ! i = 0)
     \<and> (\<forall>i<1. channels combined ! 0 ! (2 + 3 * 24000 + i) = channels ?buf2 ! 0 ! i)
     \<and> (\<forall>w ord vocabText sentenceText.
          fetchTTSBase64 w 0 vocabText = Inr (ascii ''AQD/fw=='')
          \<and> fetchTTSBase64 w 1 sentenceText = Inr (ascii ''AIA='')
          \<and> new_AudioContext w 24000 = Inr ?ctx
          \<longrightarrow> snd (generateSequentialPronunciation w ord vocabText sentenceText) = Inr combined)"
    ..
  note c1 = c [THEN conjunct1]
    and c2 = c [THEN conjunct2, THEN conjunct1]
    and c4 = c [THEN conjunct2, THEN conjunct2, THEN conjunct2, THEN conjunct1]
    and c5 = c [THEN conjunct2, THEN conjunct2, THEN conjunct2, THEN conjunct2, THEN conjunct1]
    and c6 = c [THEN conjunct2, THEN conjunct2, THEN conjunct2, THEN conjunct2, THEN conjunct2,
                THEN conjunct1]
    and c7 = c [THEN conjunct2, THEN conjunct2, THEN conjunct2, THEN conjunct2, THEN conjunct2,
                THEN conjunct2]
  have s0: "channels combined ! 0 ! 0 = 1 / 32768"
    using c4 [rule_format, of 0] by simp
  have s1: "channels combined ! 0 ! 1 = 32767 / 32768"
    using c4 [rule_format, of 1] by simp
  have s2: "channels combined ! 0 ! 2 = 0"
    using c5 [rule_format, of 2] by simp
  have s3: "channels combined ! 0 ! 72001 = 0"
    using c5 [rule_format, of 72001] by simp
  have s4: "channels combined ! 0 ! 72002 = - 1"
    using c6 [rule_format, of 0] by simp
  have run: "snd (generateSequentialPronunciation example_world SecondSettlesFirst tango reibun)
      = Inr combined"
    using c7 [rule_format, of example_world tango reibun SecondSettlesFirst]
      example_tts_0 [of tango] example_tts_1 [of reibun] example_ctx
    by simp
  from c2 have len: "buffer_length combined = 72003" by simp
  show ?thesis
    using decode_AQD_fw [of ?ctx] decode_AIA [of ?ctx] a [symmetric] b [symmetric] c1 len
      s0 s1 s2 s3 s4 run
    by (intro exI [of _ ?buf1] exI [of _ ?buf2] exI [of _ combined] conjI)
qed

subsection \<open>The two requests and the order of the result\<close>

text \<open>
  Claim C7. A run of \<open>generateSequentialPronunciation\<close> sends exactly two speech
  requests, the first for the vocab text and the second for the sentence text, and both
  are sent before anything settles: they are the first two events of the run. When the
  run returns a buffer, its first segment is the decoded answer to the vocab request and
  its last segment the decoded answer to the sentence request, and the buffer is the
  same for either order of arrival.
\<close>

theorem sequential_requests_in_argument_order:
  assumes "generateSequentialPronunciation w ord vocabText sentenceText = (trace, result)"
  shows "filter is_request trace = [Request 0 vocabText, Request 1 sentenceText]
       \<and> take 2 trace = [Request 0 vocabText, Request 1 sentenceText]
       \<and> (\<forall>combined. result = Inr combined \<longrightarrow>
            (\<exists>base64Vocab base64Sentence ctx buf1 buf2.
                fetchTTSBase64_resume (generateContent_tts w 0 vocabText) = Inr base64Vocab
              \<and> fetchTTSBase64_resume (generateContent_tts w 1 sentenceText) = Inr base64Sentence
              \<and> new_AudioContext w 24000 = Inr ctx
              \<and> decodePCM base64Vocab ctx = Inr buf1
              \<and> decodePCM base64Sentence ctx = Inr buf2
              \<and> take (buffer_length buf1) (channels combined ! 0) = channels buf1 ! 0
              \<and> drop (buffer_length buf1 + 3 * 24000) (channels combined ! 0) = channels buf2 ! 0
              \<and> (\<forall>ord'. snd (generateSequentialPronunciation w ord' vocabText sentenceText)
                            = Inr combined)))"
proof (intro conjI allI impI)
  have tr: "trace = [Request 0 vocabText, Request 1 sentenceText]
       @ map Settled (fst (promise_all2 ord (fetchTTSBase64 w 0 vocabText)
                                            (fetchTTSBase64 w 1 sentenceText)))"
    using sequential_trace [of w ord vocabText sentenceText] assms by simp
  show "filter is_request trace = [Request 0 vocabText, Request 1 sentenceText]"
    unfolding tr by (simp add: filter_map o_def)
  show "take 2 trace = [Request 0 vocabText, Request 1 sentenceText]"
    unfolding tr by simp
next
  fix combined assume "result = Inr combined"
  then have "snd (generateSequentialPronunciation w ord vocabText sentenceText) = Inr combined"
    using assms by simp
  then obtain x y ctx buf1 buf2 where h:
    "fetchTTSBase64 w 0 vocabText = Inr x" "fetchTTSBase64 w 1 sentenceText = Inr y"
    "new_AudioContext w 24000 = Inr ctx" "decodePCM x ctx = Inr buf1" "decodePCM y ctx = Inr buf2"
    "sequence_buffers ctx buf1 buf2 = Inr combined"
    by (rule sequential_Inr)
  from h(4) obtain d1 where d1: "channels buf1 = [d1]" using decoded_channels by blast
  from h(5) obtain d2 where d2: "channels buf2 = [d2]" using decoded_channels by blast
  have c: "combined = \<lparr>sampleRate = 24000, channels = [d1 @ replicate (3 * 24000) 0 @ d2]\<rparr>"
    using sequence_buffers_eq [OF d1 d2, of ctx] h(6) by simp
  have first: "take (buffer_length buf1) (channels combined ! 0) = channels buf1 ! 0"
    by (simp add: c d1 buffer_length_def)
  have last: "drop (buffer_length buf1 + 3 * 24000) (channels combined ! 0) = channels buf2 ! 0"
    by (simp add: c d1 d2 buffer_length_def)
  have any: "\<forall>ord'. snd (generateSequentialPronunciation w ord' vocabText sentenceText)
                            = Inr combined"
    using sequential_success [OF h(1-5)] h(6) by simp
  show "\<exists>base64Vocab base64Sentence ctx buf1 buf2.
                fetchTTSBase64_resume (generateContent_tts w 0 vocabText) = Inr base64Vocab
              \<and> fetchTTSBase64_resume (generateContent_tts w 1 sentenceText) = Inr base64Sentence
              \<and> new_AudioContext w 24000 = Inr ctx
              \<and> decodePCM base64Vocab ctx = Inr buf1
              \<and> decodePCM base64Sentence ctx = Inr buf2
              \<and> take (buffer_length buf1) (channels combined ! 0) = channels buf1 ! 0
              \<and> drop (buffer_length buf1 + 3 * 24000) (channels combined ! 0) = channels buf2 ! 0
              \<and> (\<forall>ord'. snd (generateSequentialPronunciation w ord' vocabText sentenceText)
                            = Inr combined)"
    using h(1-5) first last any unfolding fetchTTSBase64_def by blast
qed

theorem sequential_requests_in_argument_order_witness:
  "\<exists>trace combined.
      generateSequentialPronunciation example_world SecondSettlesFirst tango reibun
        = (trace, Inr combined)
    \<and> trace = [Request 0 tango, Request 1 reibun, Settled 1, Settled 0]
    \<and> filter is_request trace = [Request 0 tango, Request 1 reibun]
    \<and> take 2 trace = [Request 0 tango, Request 1 reibun]
    \<and> take 2 (channels combined ! 0) = [1 / 32768, 32767 / 32768]
    \<and> drop 72002 (channels combined ! 0) = [- 1]
    \<and> snd (generateSequentialPronunciation example_world FirstSettlesFirst tango reibun)
          = Inr combined"
proof -
  let ?w = example_world
  let ?ctx = "\<lparr>ctx_sampleRate = 24000\<rparr>"
  let ?buf1 = "\<lparr>sampleRate = 24000, channels = [[1 / 32768, 32767 / 32768]]\<rparr>"
  let ?buf2 = "\<lparr>sampleRate = 24000, channels = [[- 1 :: real]]\<rparr>"
  obtain trace result
    where run: "generateSequentialPronunciation ?w SecondSettlesFirst tango reibun = (trace, result)"
    by (cases "generateSequentialPronunciation ?w SecondSettlesFirst tango reibun")
  have tr: "trace = [Request 0 tango, Request 1 reibun, Settled 1, Settled 0]"
    using sequential_trace [of ?w SecondSettlesFirst tango reibun] run
    by (simp add: example_tts_0 example_tts_1 [simplified] promise_all2_def)
  obtain combined where seq: "sequence_buffers ?ctx ?buf1 ?buf2 = Inr combined"
    using sequence_buffers_eq [of ?buf1 _ "[]" ?buf2 _ "[]" ?ctx] by simp
  have res: "result = Inr combined"
    using sequential_success [where v = tango and s = reibun and ord = SecondSettlesFirst,
        OF example_tts_0 example_tts_1 example_ctx decode_AQD_fw decode_AIA] run seq
    by simp
  note inst = sequential_requests_in_argument_order [OF run]
  note reqs = inst [THEN conjunct1] and first2 = inst [THEN conjunct2, THEN conjunct1]
  from inst [THEN conjunct2, THEN conjunct2, rule_format, OF res]
  obtain x y ctx buf1 buf2 where h:
    "fetchTTSBase64_resume (generateContent_tts ?w 0 tango) = Inr x"
    "fetchTTSBase64_resume (generateContent_tts ?w 1 reibun) = Inr y"
    "new_AudioContext ?w 24000 = Inr ctx"
    "decodePCM x ctx = Inr buf1"
    "decodePCM y ctx = Inr buf2"
    "take (buffer_length buf1) (channels combined ! 0) = channels buf1 ! 0"
    "drop (buffer_length buf1 + 3 * 24000) (channels combined ! 0) = channels buf2 ! 0"
    "\<forall>ord'. snd (generateSequentialPronunciation ?w ord' tango reibun) = Inr combined"
    by (elim exE conjE)
  have x: "x = ascii ''AQD/fw==''"
    using h(1) example_tts_0 [of tango] by (simp add: fetchTTSBase64_def)
  have y: "y = ascii ''AIA=''"
    using h(2) example_tts_1 [of reibun] by (simp add: fetchTTSBase64_def)
  have b1: "buf1 = ?buf1" using h(4) by (simp add: x decode_AQD_fw)
  have b2: "buf2 = ?buf2" using h(5) by (simp add: y decode_AIA)
  have bl: "buffer_length buf1 = 2" by (simp add: b1 buffer_length_def)
  have first: "take 2 (channels combined ! 0) = [1 / 32768, 32767 / 32768]"
    using h(6) unfolding bl by (simp add: b1)
  have last: "drop 72002 (channels combined ! 0) = [- 1]"
    using h(7) unfolding bl by (simp add: b2)
  show ?thesis
    using run [unfolded res] tr reqs first2 first last h(8) [rule_format, of FirstSettlesFirst]
    by (intro exI [of _ trace] exI [of _ combined] conjI)
qed

subsection \<open>Channel count and sample rate\<close>

text \<open>
  Claim C9. Every buffer that \<open>generatePronunciation\<close> or
  \<open>generateSequentialPronunciation\<close> returns has one channel and the rate 24000. The two
  buffers given to the sequencing step come from \<open>decodePCM\<close>, so they agree in rate and
  channel count and the step returns a buffer. The step compares nothing: it returns a
  buffer for any two buffers that have a channel, whatever their rates.
\<close>

theorem returned_buffers_mono_24000:
  "(\<forall>buffer. generatePronunciation w t = Inr buffer \<longrightarrow>
       numberOfChannels buffer = 1 \<and> sampleRate buffer = 24000)
   \<and> (\<forall>combined. snd (generateSequentialPronunciation w ord vocabText sentenceText) = Inr combined
        \<longrightarrow> numberOfChannels combined = 1 \<and> sampleRate combined = 24000)
   \<and> (\<forall>buf1 buf2. decodePCM x ctx = Inr buf1 \<and> decodePCM y ctx = Inr buf2 \<longrightarrow>
         sampleRate buf1 = sampleRate buf2 \<and> numberOfChannels buf1 = numberOfChannels buf2
         \<and> (\<exists>combined. sequence_buffers ctx buf1 buf2 = Inr combined))
   \<and> (\<forall>buf1 buf2. 0 < numberOfChannels buf1 \<and> 0 < numberOfChannels buf2 \<longrightarrow>
         (\<exists>combined. sequence_buffers ctx buf1 buf2 = Inr combined))"
proof -
  have single: "\<forall>buffer. generatePronunciation w t = Inr buffer \<longrightarrow>
       numberOfChannels buffer = 1 \<and> sampleRate buffer = 24000"
  proof (intro allI impI)
    fix buffer assume "generatePronunciation w t = Inr buffer"
    then obtain b c where "decodePCM b c = Inr buffer"
      by (auto simp: generatePronunciation_def split: sum.splits)
    then obtain d where "channels buffer = [d]" "sampleRate buffer = 24000"
      using decoded_channels by blast
    then show "numberOfChannels buffer = 1 \<and> sampleRate buffer = 24000"
      by (simp add: numberOfChannels_def)
  qed
  have sequential: "\<forall>combined.
      snd (generateSequentialPronunciation w ord vocabText sentenceText) = Inr combined
        \<longrightarrow> numberOfChannels combined = 1 \<and> sampleRate combined = 24000"
  proof (intro allI impI)
    fix combined
    assume "snd (generateSequentialPronunciation w ord vocabText sentenceText) = Inr combined"
    then obtain x y ctx buf1 buf2 where h:
      "fetchTTSBase64 w 0 vocabText = Inr x" "fetchTTSBase64 w 1 sentenceText = Inr y"
      "new_AudioContext w 24000 = Inr ctx"
      "decodePCM x ctx = Inr buf1" "decodePCM y ctx = Inr buf2"
      "sequence_buffers ctx buf1 buf2 = Inr combined"
      by (rule sequential_Inr)
    from h(4) obtain d1 where d1: "channels buf1 = [d1]" using decoded_channels by blast
    from h(5) obtain d2 where d2: "channels buf2 = [d2]" using decoded_channels by blast
    have "combined = \<lparr>sampleRate = 24000, channels = [d1 @ replicate (3 * 24000) 0 @ d2]\<rparr>"
      using sequence_buffers_eq [OF d1 d2, of ctx] h(6) by simp
    then show "numberOfChannels combined = 1 \<and> sampleRate combined = 24000"
      by (simp add: numberOfChannels_def)
  qed
  have decoded: "\<forall>buf1 buf2. decodePCM x ctx = Inr buf1 \<and> decodePCM y ctx = Inr buf2 \<longrightarrow>
         sampleRate buf1 = sampleRate buf2 \<and> numberOfChannels buf1 = numberOfChannels buf2
         \<and> (\<exists>combined. sequence_buffers ctx buf1 buf2 = Inr combined)"
  proof (intro allI impI)
    fix buf1 buf2 assume h: "decodePCM x ctx = Inr buf1 \<and> decodePCM y ctx = Inr buf2"
    from h obtain d1 where d1: "channels buf1 = [d1]" "sampleRate buf1 = 24000"
      using decoded_channels by blast
    from h obtain d2 where d2: "channels buf2 = [d2]" "sampleRate buf2 = 24000"
      using decoded_channels by blast
    show "sampleRate buf1 = sampleRate buf2 \<and> numberOfChannels buf1 = numberOfChannels buf2
         \<and> (\<exists>combined. sequence_buffers ctx buf1 buf2 = Inr combined)"
      using d1 d2 sequence_buffers_eq [OF d1(1) d2(1), of ctx] by (simp add: numberOfChannels_def)
  qed
  have any_pair: "\<forall>buf1 buf2. 0 < numberOfChannels buf1 \<and> 0 < numberOfChannels buf2 \<longrightarrow>
         (\<exists>combined. sequence_buffers ctx buf1 buf2 = Inr combined)"
  proof (intro allI impI)
    fix buf1 buf2 assume h: "0 < numberOfChannels buf1 \<and> 0 < numberOfChannels buf2"
    then obtain d1 r1 d2 r2 where "channels buf1 = d1 # r1" "channels buf2 = d2 # r2"
      by (auto simp: numberOfChannels_def neq_Nil_conv)
    then show "\<exists>combined. sequence_buffers ctx buf1 buf2 = Inr combined"
      using sequence_buffers_eq [of buf1 d1 r1 buf2 d2 r2 ctx] by simp
  qed
  from single sequential decoded any_pair show ?thesis by (intro conjI)
qed

theorem returned_buffers_mono_24000_witness:
  "\<exists>buffer combined.
      generatePronunciation example_world tango = Inr buffer
    \<and> numberOfChannels buffer = 1 \<and> sampleRate buffer = 24000
    \<and> snd (generateSequentialPronunciation example_world FirstSettlesFirst tango reibun)
         = Inr combined
    \<and> numberOfChannels combined = 1 \<and> sampleRate combined = 24000
    \<and> (\<exists>c. sequence_buffers \<lparr>ctx_sampleRate = 24000\<rparr> buffer combined = Inr c)
    \<and> (\<exists>c. sequence_buffers \<lparr>ctx_sampleRate = 24000\<rparr>
              \<lparr>sampleRate = 8000, channels = [[0]]\<rparr> \<lparr>sampleRate = 48000, channels = [[1], [1]]\<rparr>
            = Inr c)"
proof -
  let ?w = example_world
  let ?ctx = "\<lparr>ctx_sampleRate = 24000\<rparr>"
  let ?buf1 = "\<lparr>sampleRate = 24000, channels = [[1 / 32768, 32767 / 32768]]\<rparr>"
  let ?buf2 = "\<lparr>sampleRate = 24000, channels = [[- 1 :: real]]\<rparr>"
  let ?b8 = "\<lparr>sampleRate = 8000, channels = [[0 :: real]]\<rparr>"
  let ?b48 = "\<lparr>sampleRate = 48000, channels = [[1 :: real], [1]]\<rparr>"
  note inst = returned_buffers_mono_24000 [of ?w tango FirstSettlesFirst tango reibun
      "ascii ''AQD/fw==''" ?ctx "ascii ''AIA=''"]
  have gp: "generatePronunciation ?w tango = Inr ?buf1"
    by (simp add: generatePronunciation_def example_tts_0 example_ctx decode_AQD_fw)
  obtain combined where seq: "sequence_buffers ?ctx ?buf1 ?buf2 = Inr combined"
    using inst [THEN conjunct2, THEN conjunct2, THEN conjunct1, rule_format, of ?buf1 ?buf2]
      decode_AQD_fw [of ?ctx] decode_AIA [of ?ctx]
    by blast
  have run: "snd (generateSequentialPronunciation ?w FirstSettlesFirst tango reibun) = Inr combined"
    using sequential_success [where v = tango and s = reibun and ord = FirstSettlesFirst,
        OF example_tts_0 example_tts_1 example_ctx decode_AQD_fw decode_AIA] seq
    by simp
  have one: "numberOfChannels ?buf1 = 1 \<and> sampleRate ?buf1 = 24000"
    using inst [THEN conjunct1, rule_format, OF gp] .
  have two: "numberOfChannels combined = 1 \<and> sampleRate combined = 24000"
    using inst [THEN conjunct2, THEN conjunct1, rule_format, OF run] .
  have pos: "0 < numberOfChannels ?buf1 \<and> 0 < numberOfChannels combined"
    using one two by simp
  have three: "\<exists>c. sequence_buffers ?ctx ?buf1 combined = Inr c"
    using inst [THEN conjunct2, THEN conjunct2, THEN conjunct2, rule_format, OF pos] .
  have pos': "0 < numberOfChannels ?b8 \<and> 0 < numberOfChannels ?b48"
    by (simp add: numberOfChannels_def)
  have four: "\<exists>c. sequence_buffers ?ctx ?b8 ?b48 = Inr c"
    using inst [THEN conjunct2, THEN conjunct2, THEN conjunct2, rule_format, OF pos'] .
  show ?thesis
    using gp one run two three four
    by (intro exI [of _ ?buf1] exI [of _ combined]) simp
qed

subsection \<open>The clean-up of the vocab field\<close>

lemma class_run_take: "\<forall>c\<in>set (take (class_run cls s) s). cls c"
  by (induction s) auto

lemma class_run_drop:
  "drop (class_run cls s) s = [] \<or> \<not> cls (hd (drop (class_run cls s) s))"
  by (induction s) auto

lemma cleanVocab_drop: "cleanVocab s = drop (class_run marker_class s) s"
  by (simp add: cleanVocab_def match_start_plus_def Let_def)

lemma cleanVocab_dropWhile: "cleanVocab s = dropWhile marker_class s"
  unfolding cleanVocab_drop by (induction s) auto

lemma cleanVocab_split:
  "\<exists>p. s = p @ cleanVocab s \<and> (\<forall>c\<in>set p. marker_class c)
       \<and> (cleanVocab s = [] \<or> \<not> marker_class (hd (cleanVocab s)))"
proof -
  have "s = take (class_run marker_class s) s @ cleanVocab s"
    by (simp add: cleanVocab_drop)
  moreover have "\<forall>c\<in>set (take (class_run marker_class s) s). marker_class c"
    by (rule class_run_take)
  moreover have "cleanVocab s = [] \<or> \<not> marker_class (hd (cleanVocab s))"
    unfolding cleanVocab_drop by (rule class_run_drop)
  ultimately show ?thesis by blast
qed

subsection \<open>The example world, evaluated\<close>

lemma example_encoded:
  "encodeURIComponent example_url = Inr (ascii ''https%3A%2F%2Fexample.com%2Fcard%201.jpg'')"
  by (simp add: example_url_def ascii_def uri_unreserved_def prepend_def utf8_def percent_def
      hex_digit_def)

lemma example_direct: "fetch example_world example_url = Inl (NetworkFailure 0)"
  by (simp add: example_world_def example_url_def ascii_def)

lemma example_proxy:
  "fetch example_world
     (ascii ''https://corsproxy.io/?'' @ ascii ''https%3A%2F%2Fexample.com%2Fcard%201.jpg'')
   = Inr \<lparr>ok = True, statusText = ascii ''OK'',
           blob = Inr \<lparr>blob_type = ascii ''image/jpeg'', blob_bytes = [0xFF, 0xD8, 0xFF]\<rparr>\<rparr>"
  by (simp add: example_world_def ascii_def)

lemma example_read:
  "readAsDataURL example_world \<lparr>blob_type = ascii ''image/jpeg'', blob_bytes = [0xFF, 0xD8, 0xFF]\<rparr>
   = Inr (ascii ''data:image/jpeg;base64,/9j/'')"
  by (simp add: example_world_def ascii_def)

lemma example_split:
  "index1 (split_on 0x2C (ascii ''data:image/jpeg;base64,/9j/'')) = Some (ascii ''/9j/'')"
  by (simp add: index1_def ascii_def)

lemma example_vision:
  "generateContent_image example_world (Some (ascii ''/9j/''))
     = Inr \<lparr>response_text = Some example_json, candidates = None\<rparr>"
  by (simp add: example_world_def)

lemma example_json_nonempty: "example_json \<noteq> []"
  by (simp add: example_json_def ascii_def)

lemma example_parse: "JSON_parse example_world example_json = Inr example_parsed"
  by (simp add: example_world_def)

lemma example_build: "build_result example_parsed = Inr example_result"
  by (simp add: example_parsed_def example_result_def build_result_def get_property_def
      call_replace_def ascii_def tango_def reibun_def cleanVocab_def match_start_plus_def
      marker_class_def regex_space_def regex_digit_def)

lemma example_read_response:
  "read_response example_world \<lparr>response_text = Some example_json, candidates = None\<rparr>
     = Inr example_result"
  by (simp add: read_response_def example_json_nonempty example_parse example_build)

lemma example_fetched:
  "fileToGenerativePart example_world example_url = Inr (Some (ascii ''/9j/''))"
  by (simp add: fileToGenerativePart_def direct_fetch_def example_direct proxy_fetch_def
      example_encoded Let_def example_proxy blobToBase64_def example_read example_split)

lemma example_analyze: "analyzeJapaneseImage example_world example_url = Inr example_result"
  by (simp add: analyzeJapaneseImage_def example_fetched example_vision example_read_response)

lemma partial_fetched:
  "fileToGenerativePart partial_world example_url = Inr (Some (ascii ''/9j/''))"
proof -
  have same: "fetch partial_world = fetch example_world"
    "readAsDataURL partial_world = readAsDataURL example_world"
    by (simp_all add: partial_world_def)
  have "fileToGenerativePart partial_world example_url
      = fileToGenerativePart example_world example_url"
    by (simp add: fileToGenerativePart_def direct_fetch_def proxy_fetch_def blobToBase64_def same
        cong: sum.case_cong if_cong)
  then show ?thesis by (simp add: example_fetched)
qed

lemma partial_analyze: "analyzeJapaneseImage partial_world example_url = Inr partial_result"
proof -
  have "generateContent_image partial_world (Some (ascii ''/9j/''))
      = Inr \<lparr>response_text = Some example_json, candidates = None\<rparr>"
    using example_vision by (simp add: partial_world_def)
  moreover have "read_response partial_world \<lparr>response_text = Some example_json, candidates = None\<rparr>
      = Inr partial_result"
    by (simp add: read_response_def example_json_nonempty partial_world_def build_result_def
        get_property_def call_replace_def partial_result_def ascii_def tango_def cleanVocab_def
        match_start_plus_def marker_class_def regex_space_def regex_digit_def)
  ultimately show ?thesis
    by (simp add: analyzeJapaneseImage_def partial_fetched)
qed

lemma numbered_analyze:
  "analyzeJapaneseImage numbered_world example_url
     = Inr \<lparr>vocab = tango, sentence = JStr reibun, reading = JUndefined,
            japanese = tango @ [0x000A] @ reibun\<rparr>"
proof -
  have same: "fetch numbered_world = fetch example_world"
    "readAsDataURL numbered_world = readAsDataURL example_world"
    by (simp_all add: numbered_world_def)
  have "fileToGenerativePart numbered_world example_url
      = fileToGenerativePart example_world example_url"
    by (simp add: fileToGenerativePart_def direct_fetch_def proxy_fetch_def blobToBase64_def same
        cong: sum.case_cong if_cong)
  then have fetched: "fileToGenerativePart numbered_world example_url = Inr (Some (ascii ''/9j/''))"
    by (simp add: example_fetched)
  have "generateContent_image numbered_world (Some (ascii ''/9j/''))
      = Inr \<lparr>response_text = Some example_json, candidates = None\<rparr>"
    using example_vision by (simp add: numbered_world_def)
  moreover have "read_response numbered_world \<lparr>response_text = Some example_json, candidates = None\<rparr>
      = Inr \<lparr>vocab = tango, sentence = JStr reibun, reading = JUndefined,
             japanese = tango @ [0x000A] @ reibun\<rparr>"
    by (simp add: read_response_def example_json_nonempty numbered_world_def build_result_def
        get_property_def call_replace_def ascii_def tango_def cleanVocab_def
        match_start_plus_def marker_class_def regex_space_def regex_digit_def)
  ultimately show ?thesis
    by (simp add: analyzeJapaneseImage_def fetched)
qed

subsection \<open>The fetcher and its fallback\<close>

lemma direct_fetch_fails:
  assumes "(\<exists>e. fetch w url = Inl e) \<or> (\<exists>resp. fetch w url = Inr resp \<and> \<not> ok resp)
           \<or> (\<exists>e. direct_fetch w url = Inl e)"
  shows "\<exists>e. direct_fetch w url = Inl e"
  using assms by (auto simp: direct_fetch_def)

lemma proxy_fetch_fails:
  assumes "(\<exists>encoded e. encodeURIComponent url = Inr encoded
               \<and> fetch w (ascii ''https://corsproxy.io/?'' @ encoded) = Inl e)
           \<or> (\<exists>encoded resp. encodeURIComponent url = Inr encoded
               \<and> fetch w (ascii ''https://corsproxy.io/?'' @ encoded) = Inr resp \<and> \<not> ok resp)
           \<or> (\<exists>e. proxy_fetch w url = Inl e)"
  shows "\<exists>e. proxy_fetch w url = Inl e"
  using assms by (auto simp: proxy_fetch_def Let_def)

lemma proxy_fetch_ok:
  assumes "encodeURIComponent url = Inr encoded"
    and "fetch w (ascii ''https://corsproxy.io/?'' @ encoded) = Inr proxyResponse"
    and "ok proxyResponse" and "blob proxyResponse = Inr proxyBlob"
  shows "proxy_fetch w url = blobToBase64 w proxyBlob"
  using assms by (simp add: proxy_fetch_def Let_def)

lemma analyze_after_fetch:
  "fileToGenerativePart w url = Inr d \<Longrightarrow>
   analyzeJapaneseImage w url
     = (case generateContent_image w d of
          Inl e \<Rightarrow> Inl e
        | Inr response \<Rightarrow> read_response w response)"
  by (simp add: analyzeJapaneseImage_def)

text \<open>
  Claim C5. When the direct fetch fails (the request is rejected, or the status is not
  OK, or reading the body fails) and the fetch through the proxy succeeds, the fetcher
  returns the data of the proxy's body. From there on \<open>analyzeJapaneseImage\<close> is the
  model call and the reading of its answer on this data: it returns the result whenever
  these two succeed, and the failure of the direct fetch appears nowhere.
\<close>

theorem proxy_fallback_succeeds:
  assumes "(\<exists>e. fetch w url = Inl e) \<or> (\<exists>resp. fetch w url = Inr resp \<and> \<not> ok resp)
           \<or> (\<exists>e. direct_fetch w url = Inl e)"
    and "encodeURIComponent url = Inr encoded"
    and "fetch w (ascii ''https://corsproxy.io/?'' @ encoded) = Inr proxyResponse"
    and "ok proxyResponse"
    and "blob proxyResponse = Inr proxyBlob"
    and "readAsDataURL w proxyBlob = Inr dataUrl"
    and "base64Data = index1 (split_on 0x2C dataUrl)"
  shows "fileToGenerativePart w url = Inr base64Data
       \<and> analyzeJapaneseImage w url
           = (case generateContent_image w base64Data of
                Inl e \<Rightarrow> Inl e
              | Inr response \<Rightarrow> read_response w response)
       \<and> (\<forall>response r. generateContent_image w base64Data = Inr response
                         \<and> read_response w response = Inr r
              \<longrightarrow> analyzeJapaneseImage w url = Inr r)"
proof -
  from assms(1) obtain e where direct: "direct_fetch w url = Inl e"
    using direct_fetch_fails by blast
  have "proxy_fetch w url = blobToBase64 w proxyBlob"
    using assms(2-5) by (rule proxy_fetch_ok)
  then have proxy: "proxy_fetch w url = Inr base64Data"
    using assms(6,7) by (simp add: blobToBase64_def)
  have fetched: "fileToGenerativePart w url = Inr base64Data"
    by (simp add: fileToGenerativePart_def direct proxy)
  note after = analyze_after_fetch [OF fetched]
  have "\<forall>response r. generateContent_image w base64Data = Inr response
                         \<and> read_response w response = Inr r
              \<longrightarrow> analyzeJapaneseImage w url = Inr r"
    by (simp add: after)
  with fetched after show ?thesis by (intro conjI)
qed

theorem proxy_fallback_succeeds_witness:
  "fetch example_world example_url = Inl (NetworkFailure 0)
   \<and> fileToGenerativePart example_world example_url = Inr (Some (ascii ''/9j/''))
   \<and> analyzeJapaneseImage example_world example_url = Inr example_result"
proof -
  let ?resp = "\<lparr>ok = True, statusText = ascii ''OK'',
           blob = Inr \<lparr>blob_type = ascii ''image/jpeg'', blob_bytes = [0xFF, 0xD8, 0xFF]\<rparr>\<rparr>"
  have direct: "(\<exists>e. fetch example_world example_url = Inl e)
      \<or> (\<exists>resp. fetch example_world example_url = Inr resp \<and> \<not> ok resp)
      \<or> (\<exists>e. direct_fetch example_world example_url = Inl e)"
    using example_direct by simp
  have ok: "ok ?resp" and blob: "blob ?resp = Inr \<lparr>blob_type = ascii ''image/jpeg'', blob_bytes = [0xFF, 0xD8, 0xFF]\<rparr>"
    by simp_all
  note inst = proxy_fallback_succeeds [OF direct example_encoded example_proxy ok blob
      example_read example_split [symmetric]]
  have "analyzeJapaneseImage example_world example_url = Inr example_result"
    using inst [THEN conjunct2, THEN conjunct2, rule_format,
        of "\<lparr>response_text = Some example_json, candidates = None\<rparr>" example_result]
      example_vision example_read_response
    by simp
  with example_direct inst [THEN conjunct1] show ?thesis by (intro conjI)
qed

text \<open>
  Claim C6. When the direct fetch and the fetch through the proxy both fail, the fetcher
  throws \<^verbatim>\<open>Error\<close> with the message of line 49, whatever the two failures were, and
  \<open>analyzeJapaneseImage\<close> throws the same exception. The message is the opening followed
  by the three causes: an invalid link, a file that is not public, a cross-origin
  refusal. It is not a network failure.
\<close>

theorem both_fetches_fail:
  assumes "(\<exists>e. fetch w url = Inl e) \<or> (\<exists>resp. fetch w url = Inr resp \<and> \<not> ok resp)
           \<or> (\<exists>e. direct_fetch w url = Inl e)"
    and "(\<exists>encoded e. encodeURIComponent url = Inr encoded
               \<and> fetch w (ascii ''https://corsproxy.io/?'' @ encoded) = Inl e)
         \<or> (\<exists>encoded resp. encodeURIComponent url = Inr encoded
               \<and> fetch w (ascii ''https://corsproxy.io/?'' @ encoded) = Inr resp \<and> \<not> ok resp)
         \<or> (\<exists>e. proxy_fetch w url = Inl e)"
  shows "fileToGenerativePart w url = Inl (Error retrieval_message)
       \<and> analyzeJapaneseImage w url = Inl (Error retrieval_message)
       \<and> retrieval_message = msg_cannot_read @ msg_invalid_link @ msg_not_public @ msg_cors_refused
       \<and> (\<forall>k. Error retrieval_message \<noteq> NetworkFailure k)"
proof -
  from assms(1) obtain e1 where direct: "direct_fetch w url = Inl e1"
    using direct_fetch_fails by blast
  from assms(2) obtain e2 where proxy: "proxy_fetch w url = Inl e2"
    using proxy_fetch_fails by blast
  have fetched: "fileToGenerativePart w url = Inl (Error retrieval_message)"
    by (simp add: fileToGenerativePart_def direct proxy)
  then have analyze: "analyzeJapaneseImage w url = Inl (Error retrieval_message)"
    by (simp add: analyzeJapaneseImage_def)
  have msg: "retrieval_message = msg_cannot_read @ msg_invalid_link @ msg_not_public @ msg_cors_refused"
    by (simp add: retrieval_message_def msg_cannot_read_def msg_invalid_link_def
        msg_not_public_def msg_cors_refused_def)
  from fetched analyze msg show ?thesis by simp
qed

theorem both_fetches_fail_witness:
  "fileToGenerativePart (example_world\<lparr>fetch := \<lambda>u. Inl (NetworkFailure 7)\<rparr>) example_url
     = Inl (Error retrieval_message)
   \<and> analyzeJapaneseImage (example_world\<lparr>fetch := \<lambda>u. Inl (NetworkFailure 7)\<rparr>) example_url
     = Inl (Error retrieval_message)
   \<and> analyzeJapaneseImage
       (example_world\<lparr>fetch := \<lambda>u. Inr \<lparr>ok = False, statusText = ascii ''Forbidden'',
                                          blob = Inl (NetworkFailure 8)\<rparr>\<rparr>) example_url
     = Inl (Error retrieval_message)"
proof -
  let ?w1 = "example_world\<lparr>fetch := \<lambda>u. Inl (NetworkFailure 7)\<rparr>"
  let ?w2 = "example_world\<lparr>fetch := \<lambda>u. Inr \<lparr>ok = False, statusText = ascii ''Forbidden'',
                                          blob = Inl (NetworkFailure 8)\<rparr>\<rparr>"
  have d1: "(\<exists>e. fetch ?w1 example_url = Inl e)
      \<or> (\<exists>resp. fetch ?w1 example_url = Inr resp \<and> \<not> ok resp)
      \<or> (\<exists>e. direct_fetch ?w1 example_url = Inl e)"
    by simp
  have p1: "(\<exists>encoded e. encodeURIComponent example_url = Inr encoded
               \<and> fetch ?w1 (ascii ''https://corsproxy.io/?'' @ encoded) = Inl e)
         \<or> (\<exists>encoded resp. encodeURIComponent example_url = Inr encoded
               \<and> fetch ?w1 (ascii ''https://corsproxy.io/?'' @ encoded) = Inr resp \<and> \<not> ok resp)
         \<or> (\<exists>e. proxy_fetch ?w1 example_url = Inl e)"
    using example_encoded by simp
  have d2: "(\<exists>e. fetch ?w2 example_url = Inl e)
      \<or> (\<exists>resp. fetch ?w2 example_url = Inr resp \<and> \<not> ok resp)
      \<or> (\<exists>e. direct_fetch ?w2 example_url = Inl e)"
    by simp
  have p2: "(\<exists>encoded e. encodeURIComponent example_url = Inr encoded
               \<and> fetch ?w2 (ascii ''https://corsproxy.io/?'' @ encoded) = Inl e)
         \<or> (\<exists>encoded resp. encodeURIComponent example_url = Inr encoded
               \<and> fetch ?w2 (ascii ''https://corsproxy.io/?'' @ encoded) = Inr resp \<and> \<not> ok resp)
         \<or> (\<exists>e. proxy_fetch ?w2 example_url = Inl e)"
    using example_encoded by simp
  note i1 = both_fetches_fail [OF d1 p1] and i2 = both_fetches_fail [OF d2 p2]
  from i1 [THEN conjunct1] i1 [THEN conjunct2, THEN conjunct1] i2 [THEN conjunct2, THEN conjunct1]
  show ?thesis by (intro conjI)
qed

subsection \<open>The analysis result\<close>

lemma analyze_Inr:
  assumes "analyzeJapaneseImage w url = Inr r"
  obtains d response t parsed where
    "fileToGenerativePart w url = Inr d" "generateContent_image w d = Inr response"
    "response_text response = Some t" "t \<noteq> []" "JSON_parse w t = Inr parsed"
    "build_result parsed = Inr r"
  using assms
  by (auto simp: analyzeJapaneseImage_def read_response_def
      split: sum.splits option.splits if_splits)

lemma get_property_JStr:
  "get_property parsed k = Inr (JStr v) \<Longrightarrow> \<exists>props. parsed = JObj props \<and> map_of props k = Some (JStr v)"
  by (auto simp: get_property_def split: jsval.splits option.splits)

lemma build_result_Inr:
  assumes "build_result parsed = Inr r"
  obtains props v shown where
    "parsed = JObj props" "map_of props (ascii ''vocab'') = Some (JStr v)"
    "vocab r = cleanVocab v"
    "sentence r = (case map_of props (ascii ''sentence'') of None \<Rightarrow> JUndefined | Some x \<Rightarrow> x)"
    "reading r = (case map_of props (ascii ''reading'') of None \<Rightarrow> JUndefined | Some x \<Rightarrow> x)"
    "ToString (sentence r) = Inr shown"
    "japanese r = cleanVocab v @ [0x000A] @ shown"
proof -
  from assms obtain v0 where v0: "get_property parsed (ascii ''vocab'') = Inr v0"
    by (auto simp: build_result_def split: sum.splits)
  with assms obtain v where v: "v0 = JStr v"
    by (auto simp: build_result_def call_replace_def split: sum.splits jsval.splits)
  from v0 v obtain props where props: "parsed = JObj props"
    "map_of props (ascii ''vocab'') = Some (JStr v)"
    using get_property_JStr by blast
  let ?s = "case map_of props (ascii ''sentence'') of None \<Rightarrow> JUndefined | Some x \<Rightarrow> x"
  let ?r = "case map_of props (ascii ''reading'') of None \<Rightarrow> JUndefined | Some x \<Rightarrow> x"
  have gs: "get_property parsed (ascii ''sentence'') = Inr ?s"
    and gr: "get_property parsed (ascii ''reading'') = Inr ?r"
    by (simp_all add: props get_property_def)
  from assms obtain shown where shown: "ToString ?s = Inr shown"
    and r: "r = \<lparr>vocab = cleanVocab v, sentence = ?s, reading = ?r,
                 japanese = cleanVocab v @ [0x000A] @ shown\<rparr>"
    unfolding build_result_def v0 v gs gr call_replace_def
    by (auto split: sum.splits)
  show thesis
    using props shown by (intro that [of props v shown]) (simp_all add: r)
qed

text \<open>
  Claim C4. In every result \<open>analyzeJapaneseImage\<close> returns, \<open>japanese\<close> is the cleaned
  vocab, one line feed (U+000A), and the sentence as the template literal shows it: the
  sentence itself when it is a string. It is computed from the other two fields and
  from nothing else. For the word and the sentence of the example it is the word, the
  line feed and the sentence.
\<close>

theorem japanese_is_vocab_newline_sentence:
  "(\<forall>r. analyzeJapaneseImage w url = Inr r \<longrightarrow>
       (\<exists>shown. ToString (sentence r) = Inr shown \<and> japanese r = vocab r @ [0x000A] @ shown)
       \<and> (\<forall>s. sentence r = JStr s \<longrightarrow> japanese r = vocab r @ [0x000A] @ s))
   \<and> build_result (JObj [(ascii ''vocab'', JStr tango), (ascii ''sentence'', JStr reibun),
                          (ascii ''reading'', JStr yomi)])
       = Inr \<lparr>vocab = tango, sentence = JStr reibun, reading = JStr yomi,
              japanese = [0x5358, 0x8A9E, 0x000A, 0x4F8B, 0x6587, 0x3067, 0x3059, 0x3002]\<rparr>"
proof -
  have general: "\<forall>r. analyzeJapaneseImage w url = Inr r \<longrightarrow>
       (\<exists>shown. ToString (sentence r) = Inr shown \<and> japanese r = vocab r @ [0x000A] @ shown)
       \<and> (\<forall>s. sentence r = JStr s \<longrightarrow> japanese r = vocab r @ [0x000A] @ s)"
  proof (intro allI impI)
    fix r assume "analyzeJapaneseImage w url = Inr r"
    then obtain parsed where "build_result parsed = Inr r" by (rule analyze_Inr)
    then obtain v shown where h: "vocab r = cleanVocab v" "ToString (sentence r) = Inr shown"
      "japanese r = cleanVocab v @ [0x000A] @ shown"
      by (rule build_result_Inr)
    then show "(\<exists>shown. ToString (sentence r) = Inr shown \<and> japanese r = vocab r @ [0x000A] @ shown)
       \<and> (\<forall>s. sentence r = JStr s \<longrightarrow> japanese r = vocab r @ [0x000A] @ s)"
      by auto
  qed
  have ex: "build_result (JObj [(ascii ''vocab'', JStr tango), (ascii ''sentence'', JStr reibun),
                          (ascii ''reading'', JStr yomi)])
       = Inr \<lparr>vocab = tango, sentence = JStr reibun, reading = JStr yomi,
              japanese = [0x5358, 0x8A9E, 0x000A, 0x4F8B, 0x6587, 0x3067, 0x3059, 0x3002]\<rparr>"
    by (simp add: build_result_def get_property_def call_replace_def ascii_def tango_def
        reibun_def cleanVocab_def match_start_plus_def marker_class_def regex_space_def
        regex_digit_def)
  from general ex show ?thesis by (intro conjI)
qed

theorem japanese_is_vocab_newline_sentence_witness:
  "analyzeJapaneseImage example_world example_url = Inr example_result
   \<and> sentence example_result = JStr reibun
   \<and> japanese example_result = vocab example_result @ [0x000A] @ reibun
   \<and> analyzeJapaneseImage partial_world example_url = Inr partial_result
   \<and> (\<exists>shown. ToString (sentence partial_result) = Inr shown
         \<and> japanese partial_result = vocab partial_result @ [0x000A] @ shown)"
proof -
  have s: "sentence example_result = JStr reibun" by (simp add: example_result_def)
  note i1 = japanese_is_vocab_newline_sentence [of example_world example_url,
      THEN conjunct1, rule_format, OF example_analyze]
  note i2 = japanese_is_vocab_newline_sentence [of partial_world example_url,
      THEN conjunct1, rule_format, OF partial_analyze]
  from example_analyze s i1 [THEN conjunct2, rule_format, OF s] partial_analyze i2 [THEN conjunct1]
  show ?thesis by (intro conjI)
qed

subsection \<open>The vocab field of the result\<close>

lemma build_result_vocab:
  assumes "build_result parsed = Inr r"
  shows "\<exists>props v p. parsed = JObj props \<and> map_of props (ascii ''vocab'') = Some (JStr v)
           \<and> v = p @ vocab r \<and> (\<forall>c\<in>set p. marker_class c)
           \<and> (vocab r = [] \<or> \<not> marker_class (hd (vocab r)))"
proof -
  from assms obtain props v shown where b:
    "parsed = JObj props" "map_of props (ascii ''vocab'') = Some (JStr v)"
    "vocab r = cleanVocab v"
    by (rule build_result_Inr)
  from cleanVocab_split [of v] obtain p where
    "v = p @ cleanVocab v" "\<forall>c\<in>set p. marker_class c"
    "cleanVocab v = [] \<or> \<not> marker_class (hd (cleanVocab v))"
    by blast
  with b show ?thesis by (intro exI [of _ props] exI [of _ v] exI [of _ p]) simp
qed

text \<open>
  Claim C3. In every result \<open>analyzeJapaneseImage\<close> returns, and in every result of
  lines 107 to 114, the \<open>vocab\<close> string of the service is a prefix followed by the
  \<open>vocab\<close> of the result: every code unit of the prefix is white space, an ASCII digit,
  a period or a circled digit from U+2460 to U+2473, and the \<open>vocab\<close> of the result is
  empty or starts with a code unit that is none of these. So exactly the longest such
  run at the start is removed, and nothing else. For an answer whose \<open>vocab\<close> is the
  circled 1 before the word, or \<^verbatim>\<open>1. \<close> before the word, the result has the word; for
  the word alone it has the word unchanged.
\<close>

theorem analyze_strips_leading_markers:
  "(\<forall>r. analyzeJapaneseImage w url = Inr r \<longrightarrow>
      (\<exists>d response t props v p.
          fileToGenerativePart w url = Inr d
        \<and> generateContent_image w d = Inr response
        \<and> response_text response = Some t
        \<and> JSON_parse w t = Inr (JObj props)
        \<and> map_of props (ascii ''vocab'') = Some (JStr v)
        \<and> v = p @ vocab r
        \<and> (\<forall>c\<in>set p. marker_class c)
        \<and> (vocab r = [] \<or> \<not> marker_class (hd (vocab r)))))
   \<and> (\<forall>r. build_result parsed = Inr r \<longrightarrow>
        (\<exists>props v p.
            parsed = JObj props
          \<and> map_of props (ascii ''vocab'') = Some (JStr v)
          \<and> v = p @ vocab r
          \<and> (\<forall>c\<in>set p. marker_class c)
          \<and> (vocab r = [] \<or> \<not> marker_class (hd (vocab r)))))
   \<and> (marker_class c \<longleftrightarrow>
         regex_space c \<or> (0x30 \<le> c \<and> c \<le> 0x39) \<or> c = 0x2E \<or> (0x2460 \<le> c \<and> c \<le> 0x2473))
   \<and> build_result (JObj [(ascii ''vocab'', JStr ([0x2460] @ tango)),
                          (ascii ''sentence'', JStr s), (ascii ''reading'', JStr y)])
       = Inr \<lparr>vocab = tango, sentence = JStr s, reading = JStr y,
              japanese = tango @ [0x000A] @ s\<rparr>
   \<and> build_result (JObj [(ascii ''vocab'', JStr (ascii ''1. '' @ tango)),
                          (ascii ''sentence'', JStr s), (ascii ''reading'', JStr y)])
       = Inr \<lparr>vocab = tango, sentence = JStr s, reading = JStr y,
              japanese = tango @ [0x000A] @ s\<rparr>
   \<and> build_result (JObj [(ascii ''vocab'', JStr tango),
                          (ascii ''sentence'', JStr s), (ascii ''reading'', JStr y)])
       = Inr \<lparr>vocab = tango, sentence = JStr s, reading = JStr y,
              japanese = tango @ [0x000A] @ s\<rparr>"
proof -
  have 1: "\<forall>r. analyzeJapaneseImage w url = Inr r \<longrightarrow>
      (\<exists>d response t props v p.
          fileToGenerativePart w url = Inr d
        \<and> generateContent_image w d = Inr response
        \<and> response_text response = Some t
        \<and> JSON_parse w t = Inr (JObj props)
        \<and> map_of props (ascii ''vocab'') = Some (JStr v)
        \<and> v = p @ vocab r
        \<and> (\<forall>c\<in>set p. marker_class c)
        \<and> (vocab r = [] \<or> \<not> marker_class (hd (vocab r))))"
  proof (intro allI impI)
    fix r assume "analyzeJapaneseImage w url = Inr r"
    then obtain d response t parsed where a:
      "fileToGenerativePart w url = Inr d" "generateContent_image w d = Inr response"
      "response_text response = Some t" "t \<noteq> []" "JSON_parse w t = Inr parsed"
      "build_result parsed = Inr r"
      by (rule analyze_Inr)
    from build_result_vocab [OF a(6)] obtain props v p where b:
      "parsed = JObj props" "map_of props (ascii ''vocab'') = Some (JStr v)"
      "v = p @ vocab r" "\<forall>c\<in>set p. marker_class c"
      "vocab r = [] \<or> \<not> marker_class (hd (vocab r))"
      by (elim exE conjE)
    show "\<exists>d response t props v p.
          fileToGenerativePart w url = Inr d
        \<and> generateContent_image w d = Inr response
        \<and> response_text response = Some t
        \<and> JSON_parse w t = Inr (JObj props)
        \<and> map_of props (ascii ''vocab'') = Some (JStr v)
        \<and> v = p @ vocab r
        \<and> (\<forall>c\<in>set p. marker_class c)
        \<and> (vocab r = [] \<or> \<not> marker_class (hd (vocab r)))"
      using a(1,2,3) a(5) [unfolded b(1)] b(2,3,4,5)
      by (intro exI [of _ d] exI [of _ response] exI [of _ t] exI [of _ props] exI [of _ v]
          exI [of _ p] conjI)
  qed
  have 2: "\<forall>r. build_result parsed = Inr r \<longrightarrow>
        (\<exists>props v p.
            parsed = JObj props
          \<and> map_of props (ascii ''vocab'') = Some (JStr v)
          \<and> v = p @ vocab r
          \<and> (\<forall>c\<in>set p. marker_class c)
          \<and> (vocab r = [] \<or> \<not> marker_class (hd (vocab r))))"
    using build_result_vocab by blast
  have 3: "marker_class c \<longleftrightarrow>
         regex_space c \<or> (0x30 \<le> c \<and> c \<le> 0x39) \<or> c = 0x2E \<or> (0x2460 \<le> c \<and> c \<le> 0x2473)"
    by (simp add: marker_class_def regex_digit_def)
  have 4: "build_result (JObj [(ascii ''vocab'', JStr ([0x2460] @ tango)),
                          (ascii ''sentence'', JStr s), (ascii ''reading'', JStr y)])
       = Inr \<lparr>vocab = tango, sentence = JStr s, reading = JStr y,
              japanese = tango @ [0x000A] @ s\<rparr>"
    by (simp add: build_result_def get_property_def call_replace_def ascii_def tango_def
        cleanVocab_def match_start_plus_def marker_class_def regex_space_def regex_digit_def)
  have 5: "build_result (JObj [(ascii ''vocab'', JStr (ascii ''1. '' @ tango)),
                          (ascii ''sentence'', JStr s), (ascii ''reading'', JStr y)])
       = Inr \<lparr>vocab = tango, sentence = JStr s, reading = JStr y,
              japanese = tango @ [0x000A] @ s\<rparr>"
    by (simp add: build_result_def get_property_def call_replace_def ascii_def tango_def
        cleanVocab_def match_start_plus_def marker_class_def regex_space_def regex_digit_def)
  have 6: "build_result (JObj [(ascii ''vocab'', JStr tango),
                          (ascii ''sentence'', JStr s), (ascii ''reading'', JStr y)])
       = Inr \<lparr>vocab = tango, sentence = JStr s, reading = JStr y,
              japanese = tango @ [0x000A] @ s\<rparr>"
    by (simp add: build_result_def get_property_def call_replace_def ascii_def tango_def
        cleanVocab_def match_start_plus_def marker_class_def regex_space_def regex_digit_def)
  from 1 2 3 4 5 6 show ?thesis by (intro conjI)
qed

theorem analyze_strips_leading_markers_witness:
  "analyzeJapaneseImage example_world example_url = Inr example_result
   \<and> (\<exists>p. [0x2460] @ tango = p @ vocab example_result \<and> list_all marker_class p)
   \<and> vocab example_result = tango
   \<and> \<not> marker_class (hd (vocab example_result))
   \<and> (\<exists>r p. analyzeJapaneseImage numbered_world example_url = Inr r
          \<and> ascii ''1. '' @ tango = p @ vocab r \<and> list_all marker_class p \<and> vocab r = tango)
   \<and> (\<exists>p. analyzeJapaneseImage partial_world example_url = Inr partial_result
          \<and> tango = p @ vocab partial_result \<and> list_all marker_class p
          \<and> vocab partial_result = tango)
   \<and> marker_class 0x2473 \<and> \<not> marker_class 0x2474 \<and> \<not> marker_class 0x245F"
proof -
  have ve: "vocab example_result = tango" by (simp add: example_result_def)
  have ne: "vocab example_result \<noteq> []" by (simp add: ve tango_def)
  from analyze_strips_leading_markers [of example_world example_url, THEN conjunct1,
      rule_format, OF example_analyze]
  obtain d response t props v p where h:
    "fileToGenerativePart example_world example_url = Inr d"
    "generateContent_image example_world d = Inr response"
    "response_text response = Some t"
    "JSON_parse example_world t = Inr (JObj props)"
    "map_of props (ascii ''vocab'') = Some (JStr v)"
    "v = p @ vocab example_result"
    "\<forall>c\<in>set p. marker_class c"
    "vocab example_result = [] \<or> \<not> marker_class (hd (vocab example_result))"
    by (elim exE conjE)
  have d: "d = Some (ascii ''/9j/'')" using h(1) example_fetched by simp
  have t: "t = example_json" using h(2,3) example_vision unfolding d by auto
  have props: "props = [(ascii ''vocab'', JStr ([0x2460] @ tango)), (ascii ''sentence'', JStr reibun),
                 (ascii ''reading'', JStr [0x305F, 0x3093, 0x3054])]"
    using h(4) example_parse unfolding t by (simp add: example_parsed_def)
  have v: "v = [0x2460] @ tango" using h(5) unfolding props by (simp add: ascii_def)
  have 1: "\<exists>p. [0x2460] @ tango = p @ vocab example_result \<and> list_all marker_class p"
    using h(6,7) unfolding v by (auto simp: list_all_iff)
  have 2: "\<not> marker_class (hd (vocab example_result))" using h(8) ne by simp
  let ?r = "\<lparr>vocab = tango, sentence = JStr reibun, reading = JUndefined,
            japanese = tango @ [0x000A] @ reibun\<rparr>"
  from analyze_strips_leading_markers [of numbered_world example_url, THEN conjunct1,
      rule_format, OF numbered_analyze]
  obtain t' props' v' p' where h':
    "JSON_parse numbered_world t' = Inr (JObj props')"
    "map_of props' (ascii ''vocab'') = Some (JStr v')"
    "v' = p' @ vocab ?r"
    "\<forall>c\<in>set p'. marker_class c"
    by (elim exE conjE)
  have props': "props' = [(ascii ''vocab'', JStr (ascii ''1. '' @ tango)),
                          (ascii ''sentence'', JStr reibun)]"
    using h'(1) by (simp add: numbered_world_def)
  have v': "v' = ascii ''1. '' @ tango" using h'(2) unfolding props' by (simp add: ascii_def)
  have 3: "\<exists>r p. analyzeJapaneseImage numbered_world example_url = Inr r
          \<and> ascii ''1. '' @ tango = p @ vocab r \<and> list_all marker_class p \<and> vocab r = tango"
    using numbered_analyze h'(3,4) unfolding v'
    by (intro exI [of _ ?r] exI [of _ p']) (simp add: list_all_iff)
  from analyze_strips_leading_markers [of partial_world example_url, THEN conjunct1,
      rule_format, OF partial_analyze]
  obtain t'' props'' v'' p'' where h'':
    "JSON_parse partial_world t'' = Inr (JObj props'')"
    "map_of props'' (ascii ''vocab'') = Some (JStr v'')"
    "v'' = p'' @ vocab partial_result"
    "\<forall>c\<in>set p''. marker_class c"
    by (elim exE conjE)
  have props'': "props'' = [(ascii ''vocab'', JStr tango)]"
    using h''(1) by (simp add: partial_world_def)
  have v'': "v'' = tango" using h''(2) unfolding props'' by (simp add: ascii_def)
  have 4: "\<exists>p. analyzeJapaneseImage partial_world example_url = Inr partial_result
          \<and> tango = p @ vocab partial_result \<and> list_all marker_class p
          \<and> vocab partial_result = tango"
    using partial_analyze h''(3,4) unfolding v''
    by (intro exI [of _ p'']) (simp add: list_all_iff partial_result_def)
  note cls = analyze_strips_leading_markers [THEN conjunct2, THEN conjunct2, THEN conjunct1]
  have 5: "marker_class 0x2473" using cls [of "0x2473"] by simp
  have 6: "\<not> marker_class 0x2474" using cls [of "0x2474"] by (simp add: regex_space_def)
  have 7: "\<not> marker_class 0x245F" using cls [of "0x245F"] by (simp add: regex_space_def)
  from example_analyze 1 ve 2 3 4 5 6 7 show ?thesis by (intro conjI)
qed

subsection \<open>What the analysis leaves as it is\<close>

text \<open>
  Claim C8. When \<open>analyzeJapaneseImage\<close> returns a result, the answer of the service
  parsed to an object; \<open>sentence\<close> and \<open>reading\<close> of the result are the values the object
  has under these names, unchanged, and \<^verbatim>\<open>undefined\<close> where the object has none. Only
  \<open>vocab\<close> differs from what the service sent: it is the clean-up of the object's
  \<open>vocab\<close> string.
\<close>

theorem sentence_and_reading_verbatim:
  assumes "analyzeJapaneseImage w url = Inr r"
  shows "\<exists>d response t props v.
           fileToGenerativePart w url = Inr d
         \<and> generateContent_image w d = Inr response
         \<and> response_text response = Some t
         \<and> JSON_parse w t = Inr (JObj props)
         \<and> map_of props (ascii ''vocab'') = Some (JStr v)
         \<and> vocab r = cleanVocab v
         \<and> sentence r = (case map_of props (ascii ''sentence'') of None \<Rightarrow> JUndefined | Some x \<Rightarrow> x)
         \<and> reading r = (case map_of props (ascii ''reading'') of None \<Rightarrow> JUndefined | Some x \<Rightarrow> x)
         \<and> (\<forall>s. map_of props (ascii ''sentence'') = Some (JStr s) \<longrightarrow> sentence r = JStr s)
         \<and> (\<forall>s. map_of props (ascii ''reading'') = Some (JStr s) \<longrightarrow> reading r = JStr s)
         \<and> (map_of props (ascii ''sentence'') = None \<longrightarrow> sentence r = JUndefined)
         \<and> (map_of props (ascii ''reading'') = None \<longrightarrow> reading r = JUndefined)"
proof -
  from assms obtain d response t parsed where a:
    "fileToGenerativePart w url = Inr d" "generateContent_image w d = Inr response"
    "response_text response = Some t" "t \<noteq> []" "JSON_parse w t = Inr parsed"
    "build_result parsed = Inr r"
    by (rule analyze_Inr)
  from a(6) obtain props v shown where b:
    "parsed = JObj props" "map_of props (ascii ''vocab'') = Some (JStr v)"
    "vocab r = cleanVocab v"
    "sentence r = (case map_of props (ascii ''sentence'') of None \<Rightarrow> JUndefined | Some x \<Rightarrow> x)"
    "reading r = (case map_of props (ascii ''reading'') of None \<Rightarrow> JUndefined | Some x \<Rightarrow> x)"
    "ToString (sentence r) = Inr shown"
    "japanese r = cleanVocab v @ [0x000A] @ shown"
    by (rule build_result_Inr)
  show ?thesis
    using a(1,2,3) a(5) [unfolded b(1)] b(2,3,4,5)
    by (intro exI [of _ d] exI [of _ response] exI [of _ t] exI [of _ props] exI [of _ v]) simp
qed

theorem sentence_and_reading_verbatim_witness:
  "analyzeJapaneseImage example_world example_url = Inr example_result
   \<and> (\<exists>v. map_of [(ascii ''vocab'', JStr ([0x2460] @ tango)), (ascii ''sentence'', JStr reibun),
                    (ascii ''reading'', JStr [0x305F, 0x3093, 0x3054])] (ascii ''vocab'')
             = Some (JStr v)
          \<and> vocab example_result = cleanVocab v)
   \<and> sentence example_result = JStr reibun
   \<and> reading example_result = JStr [0x305F, 0x3093, 0x3054]
   \<and> analyzeJapaneseImage partial_world example_url = Inr partial_result
   \<and> sentence partial_result = JUndefined
   \<and> reading partial_result = JUndefined"
proof -
  let ?props = "[(ascii ''vocab'', JStr ([0x2460] @ tango)), (ascii ''sentence'', JStr reibun),
                 (ascii ''reading'', JStr [0x305F, 0x3093, 0x3054])]"
  from sentence_and_reading_verbatim [OF example_analyze]
  obtain d response t props v where h:
    "fileToGenerativePart example_world example_url = Inr d"
    "generateContent_image example_world d = Inr response"
    "response_text response = Some t"
    "JSON_parse example_world t = Inr (JObj props)"
    "map_of props (ascii ''vocab'') = Some (JStr v)"
    "vocab example_result = cleanVocab v"
    "\<forall>s. map_of props (ascii ''sentence'') = Some (JStr s) \<longrightarrow> sentence example_result = JStr s"
    "\<forall>s. map_of props (ascii ''reading'') = Some (JStr s) \<longrightarrow> reading example_result = JStr s"
    by (elim exE conjE)
  have d: "d = Some (ascii ''/9j/'')" using h(1) example_fetched by simp
  have t: "t = example_json" using h(2,3) example_vision unfolding d by auto
  have props: "props = ?props"
    using h(4) example_parse unfolding t by (simp add: example_parsed_def)
  have 1: "\<exists>v. map_of ?props (ascii ''vocab'') = Some (JStr v) \<and> vocab example_result = cleanVocab v"
    using h(5,6) unfolding props by blast
  have s: "map_of props (ascii ''sentence'') = Some (JStr reibun)"
    unfolding props by (simp add: ascii_def)
  have r: "map_of props (ascii ''reading'') = Some (JStr [0x305F, 0x3093, 0x3054])"
    unfolding props by (simp add: ascii_def)
  note 2 = h(7) [rule_format, OF s] and 3 = h(8) [rule_format, OF r]
  from sentence_and_reading_verbatim [OF partial_analyze]
  obtain d' response' t' props' v' where h':
    "JSON_parse partial_world t' = Inr (JObj props')"
    "map_of props' (ascii ''sentence'') = None \<longrightarrow> sentence partial_result = JUndefined"
    "map_of props' (ascii ''reading'') = None \<longrightarrow> reading partial_result = JUndefined"
    by (elim exE conjE)
  have props': "props' = [(ascii ''vocab'', JStr tango)]"
    using h'(1) by (simp add: partial_world_def)
  have s': "map_of props' (ascii ''sentence'') = None"
    unfolding props' by (simp add: ascii_def)
  have r': "map_of props' (ascii ''reading'') = None"
    unfolding props' by (simp add: ascii_def)
  note 4 = h'(2) [rule_format, OF s'] and 5 = h'(3) [rule_format, OF r']
  from example_analyze 1 2 3 partial_analyze 4 5 show ?thesis by (intro conjI)
qed

end
